theory Spec2Isabelle
  imports Main "HOL-Library.Word"
begin

unbundle bit_operations_syntax

section \<open>Data model of holytunnel.c\<close>

text \<open>
  A pointer to a \<open>Client\<close> is the address of a slot of the worker's client pool; the null
  pointer is \<open>None\<close> of \<open>addr option\<close>.
\<close>

type_synonym addr = nat

datatype client_state =
    CLIENT_STATE_HEADER
  | CLIENT_STATE_RESOLVER
  | CLIENT_STATE_CONNECT
  | CLIENT_STATE_RESPONSE
  | CLIENT_STATE_FORWARD_HEADER
  | CLIENT_STATE_FORWARD_ALL
  | CLIENT_STATE_STOP

datatype client_type = CLIENT_TYPE_HTTP | CLIENT_TYPE_HTTPS

record epoll_event =
  events :: "32 word"
  data_ptr :: "addr option"

record url =
  host :: "string option"
  port :: "string option"

record client =
  type :: client_type
  state :: client_state
  src_fd :: int
  trg_fd :: int
  event :: epoll_event
  peer :: "addr option"
  url :: url
  sent :: "64 word"
  recvd :: "64 word"
  buffer :: string

record worker =
  index :: "32 word"
  is_alive :: bool
  event_fd :: int
  clients :: "addr \<rightharpoonup> client"

record server =
  is_alive :: bool
  listen_fd :: int
  signal_fd :: int
  workers_curr :: "32 word"
  workers_len :: "32 word"
  workers :: "worker list"

text \<open>
  The fields \<open>request\<close> of a client, \<open>resolver\<close> and \<open>thread\<close> of a worker and
  \<open>resolver\<close> of the server have types declared in headers outside this file and are
  read by none of the functions below; they are left out of the records. Of the type
  \<open>Url\<close>, declared outside this file too, the record keeps the two fields the file
  uses, \<open>host\<close> and \<open>port\<close>. Calls of the logging functions are left out.
\<close>

subsection \<open>The operating system\<close>

text \<open>
  System calls are recorded in a trace, oldest first, each with the value the kernel
  returned. What the kernel returns is an input of the model: every function that makes
  a system call takes the return value as an argument.

  \<open>Sys_epoll_ctl epfd op fd events ptr ret\<close> is the call
  \<open>epoll_ctl(epfd, op, fd, &event)\<close> with \<open>event.events = events\<close> and
  \<open>event.data.ptr = ptr\<close>, returning \<open>ret\<close>. \<open>Sys_write fd bytes\<close> stands for a write of
  \<open>bytes\<close> to the descriptor \<open>fd\<close>; no function of the file writes to or reads from a
  client socket, so no function below adds it to the trace, and \<open>bytes_written\<close> reads off
  a trace what has been written to a descriptor.
\<close>

datatype epoll_op = EPOLL_CTL_ADD | EPOLL_CTL_MOD | EPOLL_CTL_DEL

datatype syscall =
    Sys_epoll_ctl int epoll_op int "32 word" "addr option" int
  | Sys_epoll_create1 int
  | Sys_accept int int
  | Sys_close int
  | Sys_write int string
  | Sys_usleep nat

definition EPOLLIN :: "32 word" where
  "EPOLLIN = 0x001"

definition EPOLLOUT :: "32 word" where
  "EPOLLOUT = 0x004"

fun written_to :: "int \<Rightarrow> syscall \<Rightarrow> string" where
  "written_to fd (Sys_write fd' bs) = (if fd' = fd then bs else [])"
| "written_to fd _ = []"

definition bytes_written :: "int \<Rightarrow> syscall list \<Rightarrow> string" where
  "bytes_written fd tr = concat (map (written_to fd) tr)"

text \<open>
  The process ends in a fault when it calls \<open>abort()\<close> or when it dereferences a
  pointer to a slot that is not allocated, indexes the worker array out of range or
  divides by zero.
\<close>

datatype fault =
    Abort
  | Invalid_access addr
  | Index_out_of_range nat
  | Division_by_zero
  | Assertion_failed

subsection \<open>Collaborators outside this file\<close>

text \<open>
  Modelled from the spec: the client pool (\<open>mempool_alloc\<close>, \<open>mempool_free\<close> of
  \<open>util.h\<close>), the Connection Slab of the specification with
  \<open>allocate() -> record-handle | exhausted\<close> and \<open>free(handle)\<close>. The pool is the map
  from allocated slots to their records. Which slot \<open>allocate\<close> hands out, and the
  bytes the slot holds at that moment, are inputs: \<open>None\<close> is the null pointer of an
  exhausted pool.
\<close>

definition mempool_alloc ::
  "(addr \<times> client) option \<Rightarrow> (addr \<rightharpoonup> client)
     \<Rightarrow> (addr \<times> client \<times> (addr \<rightharpoonup> client)) option" where
  "mempool_alloc pick m =
     (case pick of None \<Rightarrow> None | Some (a, junk) \<Rightarrow> Some (a, junk, m(a \<mapsto> junk)))"

definition mempool_free :: "(addr \<rightharpoonup> client) \<Rightarrow> addr \<Rightarrow> (addr \<rightharpoonup> client)" where
  "mempool_free m a = m(a := None)"

text \<open>
  Modelled from the spec: \<open>url_free\<close> of \<open>util.h\<close>, which releases the parsed-request
  resources of a record (\<open>host\<close> and \<open>port\<close>).
\<close>

definition url_free :: "url \<Rightarrow> url" where
  "url_free u = u\<lparr>host := None, port := None\<rparr>"

section \<open>The state handlers\<close>

text \<open>
  Each handler takes the worker and the client and returns the next state. None of them
  reads or writes a record or makes a system call; worker and trace are returned as they
  were.
\<close>

definition worker_client_state_header ::
  "worker \<Rightarrow> addr \<Rightarrow> syscall list \<Rightarrow> client_state \<times> worker \<times> syscall list" where
  "worker_client_state_header w a tr = (CLIENT_STATE_STOP, w, tr)"

definition worker_client_state_header_parse ::
  "worker \<Rightarrow> addr \<Rightarrow> syscall list \<Rightarrow> client_state \<times> worker \<times> syscall list" where
  "worker_client_state_header_parse w a tr = (CLIENT_STATE_STOP, w, tr)"

definition worker_client_state_resolver ::
  "worker \<Rightarrow> addr \<Rightarrow> syscall list \<Rightarrow> client_state \<times> worker \<times> syscall list" where
  "worker_client_state_resolver w a tr = (CLIENT_STATE_STOP, w, tr)"

definition worker_client_state_connect ::
  "worker \<Rightarrow> addr \<Rightarrow> syscall list \<Rightarrow> client_state \<times> worker \<times> syscall list" where
  "worker_client_state_connect w a tr = (CLIENT_STATE_STOP, w, tr)"

definition worker_client_state_response ::
  "worker \<Rightarrow> addr \<Rightarrow> syscall list \<Rightarrow> client_state \<times> worker \<times> syscall list" where
  "worker_client_state_response w a tr = (CLIENT_STATE_STOP, w, tr)"

definition worker_client_state_forward_header ::
  "worker \<Rightarrow> addr \<Rightarrow> syscall list \<Rightarrow> client_state \<times> worker \<times> syscall list" where
  "worker_client_state_forward_header w a tr = (CLIENT_STATE_STOP, w, tr)"

definition worker_client_state_forward_all ::
  "worker \<Rightarrow> addr \<Rightarrow> syscall list \<Rightarrow> client_state \<times> worker \<times> syscall list" where
  "worker_client_state_forward_all w a tr = (CLIENT_STATE_STOP, w, tr)"

section \<open>Adding and deleting clients\<close>

definition worker_client_add ::
  "(addr \<times> client) option \<Rightarrow> int \<Rightarrow> worker \<Rightarrow> int \<Rightarrow> int \<Rightarrow> client_state \<Rightarrow> addr option
     \<Rightarrow> syscall list \<Rightarrow> int \<times> worker \<times> syscall list" where
  "worker_client_add pick add_ret w src trg st pr tr =
     (case mempool_alloc pick (clients w) of
        None \<Rightarrow> (- 1, w, tr)
      | Some (a, junk, m) \<Rightarrow>
          let c1 = junk\<lparr>event := \<lparr>events = EPOLLIN, data_ptr = Some a\<rparr>\<rparr>;
              w1 = w\<lparr>clients := m(a \<mapsto> c1)\<rparr>;
              tr1 = tr @ [Sys_epoll_ctl (event_fd w1) EPOLL_CTL_ADD src
                            (events (event c1)) (data_ptr (event c1)) add_ret]
          in if add_ret < 0
             then (- 1, w1\<lparr>clients := mempool_free (clients w1) a\<rparr>, tr1)
             else (0, w1\<lparr>clients := (clients w1)(a \<mapsto>
                         c1\<lparr>type := CLIENT_TYPE_HTTP, state := st, src_fd := src,
                            trg_fd := trg, url := (url c1)\<lparr>host := None, port := None\<rparr>,
                            sent := 0, recvd := 0, peer := pr\<rparr>)\<rparr>, tr1))"

text \<open>
  The block of \<open>_worker_client_del\<close> that runs when the departing client has a peer:
  the peer's interest becomes \<open>EPOLLIN | EPOLLOUT\<close>, the multiplexer is told
  (\<open>abort()\<close> when that fails), then the peer's state becomes STOP and its peer link null.
\<close>

definition worker_client_del_peer ::
  "int \<Rightarrow> worker \<Rightarrow> addr \<Rightarrow> syscall list \<Rightarrow> fault + (worker \<times> syscall list)" where
  "worker_client_del_peer mod_ret w p tr =
     (case clients w p of
        None \<Rightarrow> Inl (Invalid_access p)
      | Some pc \<Rightarrow>
          let pc1 = pc\<lparr>event := (event pc)\<lparr>events := EPOLLIN OR EPOLLOUT\<rparr>\<rparr>;
              w1 = w\<lparr>clients := (clients w)(p \<mapsto> pc1)\<rparr>;
              tr1 = tr @ [Sys_epoll_ctl (event_fd w1) EPOLL_CTL_MOD (src_fd pc1)
                            (events (event pc1)) (data_ptr (event pc1)) mod_ret]
          in if mod_ret < 0 then Inl Abort
             else Inr (w1\<lparr>clients := (clients w1)(p \<mapsto>
                         pc1\<lparr>state := CLIENT_STATE_STOP, peer := None\<rparr>)\<rparr>, tr1))"

text \<open>
  The rest of \<open>_worker_client_del\<close>: the departing client is taken out of the
  multiplexer (\<open>abort()\<close> when that fails), its socket is closed, its url released and
  its slot freed.
\<close>

definition worker_client_del_self ::
  "int \<Rightarrow> worker \<Rightarrow> addr \<Rightarrow> syscall list \<Rightarrow> fault + (worker \<times> syscall list)" where
  "worker_client_del_self del_ret w a tr =
     (case clients w a of
        None \<Rightarrow> Inl (Invalid_access a)
      | Some c \<Rightarrow>
          let tr1 = tr @ [Sys_epoll_ctl (event_fd w) EPOLL_CTL_DEL (src_fd c)
                            (events (event c)) (data_ptr (event c)) del_ret]
          in if del_ret < 0 then Inl Abort
             else let tr2 = tr1 @ [Sys_close (src_fd c)];
                      w1 = w\<lparr>clients := (clients w)(a \<mapsto> c\<lparr>url := url_free (url c)\<rparr>)\<rparr>
                  in Inr (w1\<lparr>clients := mempool_free (clients w1) a\<rparr>, tr2))"

definition worker_client_del ::
  "int \<Rightarrow> int \<Rightarrow> worker \<Rightarrow> addr \<Rightarrow> syscall list \<Rightarrow> fault + (worker \<times> syscall list)" where
  "worker_client_del mod_ret del_ret w a tr =
     (case clients w a of
        None \<Rightarrow> Inl (Invalid_access a)
      | Some c \<Rightarrow>
          (case (case peer c of
                   None \<Rightarrow> Inr (w, tr)
                 | Some p \<Rightarrow> worker_client_del_peer mod_ret w p tr) of
             Inl e \<Rightarrow> Inl e
           | Inr (w1, tr1) \<Rightarrow> worker_client_del_self del_ret w1 a tr1))"

section \<open>Dispatch\<close>

text \<open>
  \<open>_worker_handle_client_state\<close> up to and including the call of
  \<open>_worker_client_del\<close>: the switch on the client's state, which has no case for STOP
  and no default, then the deletion when the state is STOP.
\<close>

definition worker_client_state_switch ::
  "worker \<Rightarrow> addr \<Rightarrow> client_state \<Rightarrow> syscall list \<Rightarrow> client_state \<times> worker \<times> syscall list" where
  "worker_client_state_switch w a st tr =
     (case st of
        CLIENT_STATE_HEADER \<Rightarrow> worker_client_state_header w a tr
      | CLIENT_STATE_RESOLVER \<Rightarrow> worker_client_state_resolver w a tr
      | CLIENT_STATE_CONNECT \<Rightarrow> worker_client_state_connect w a tr
      | CLIENT_STATE_RESPONSE \<Rightarrow> worker_client_state_response w a tr
      | CLIENT_STATE_FORWARD_HEADER \<Rightarrow> worker_client_state_forward_header w a tr
      | CLIENT_STATE_FORWARD_ALL \<Rightarrow> worker_client_state_forward_all w a tr
      | CLIENT_STATE_STOP \<Rightarrow> (st, w, tr))"

definition worker_handle_client_state_del ::
  "int \<Rightarrow> int \<Rightarrow> worker \<Rightarrow> addr \<Rightarrow> syscall list
     \<Rightarrow> fault + (client_state \<times> worker \<times> syscall list)" where
  "worker_handle_client_state_del mod_ret del_ret w a tr =
     (case clients w a of
        None \<Rightarrow> Inl (Invalid_access a)
      | Some c \<Rightarrow>
          (case worker_client_state_switch w a (state c) tr of
             (st, w1, tr1) \<Rightarrow>
               if st = CLIENT_STATE_STOP
               then (case worker_client_del mod_ret del_ret w1 a tr1 of
                       Inl e \<Rightarrow> Inl e
                     | Inr (w2, tr2) \<Rightarrow> Inr (st, w2, tr2))
               else Inr (st, w1, tr1)))"

text \<open>
  The whole of \<open>_worker_handle_client_state\<close>: after the deletion, the last statement
  stores the next state into the client record.
\<close>

definition worker_handle_client_state ::
  "int \<Rightarrow> int \<Rightarrow> worker \<Rightarrow> addr \<Rightarrow> syscall list \<Rightarrow> fault + (worker \<times> syscall list)" where
  "worker_handle_client_state mod_ret del_ret w a tr =
     (case worker_handle_client_state_del mod_ret del_ret w a tr of
        Inl e \<Rightarrow> Inl e
      | Inr (st, w2, tr2) \<Rightarrow>
          (case clients w2 a of
             None \<Rightarrow> Inl (Invalid_access a)
           | Some c2 \<Rightarrow> Inr (w2\<lparr>clients := (clients w2)(a \<mapsto> c2\<lparr>state := st\<rparr>)\<rparr>, tr2)))"

section \<open>The server's accept handler\<close>

text \<open>
  What the environment answers to one call of \<open>_server_event_handle_listener\<close>: the
  descriptor \<open>accept\<close> returns, the slot the pool hands out and the return value of
  the \<open>epoll_ctl\<close> that registers the descriptor.
\<close>

record listener_io =
  accept_ret :: int
  alloc_ret :: "(addr \<times> client) option"
  epoll_add_ret :: int

definition server_event_handle_listener ::
  "listener_io \<Rightarrow> server \<Rightarrow> syscall list \<Rightarrow> fault + (server \<times> syscall list)" where
  "server_event_handle_listener io s tr =
     (let fd = accept_ret io;
          tr0 = tr @ [Sys_accept (listen_fd s) fd]
      in if fd < 0 then Inr (s, tr0)
         else
           let curr = workers_curr s
           in if length (workers s) \<le> unat curr then Inl (Index_out_of_range (unat curr))
              else
                (case worker_client_add (alloc_ret io) (epoll_add_ret io)
                        (workers s ! unat curr) fd (- 1) CLIENT_STATE_HEADER None tr0 of
                   (ret, w1, tr1) \<Rightarrow>
                     let s1 = s\<lparr>workers := (workers s)[unat curr := w1]\<rparr>
                     in if ret < 0 then Inr (s1, tr1 @ [Sys_close fd])
                        else if workers_len s1 = 0 then Inl Division_by_zero
                        else Inr (s1\<lparr>workers_curr := (curr + 1) mod workers_len s1\<rparr>, tr1)))"

text \<open>
  The accept handler run once for each readiness event of the listening socket, as the
  server's event loop does, one environment answer per event.
\<close>

fun server_accept_run ::
  "listener_io list \<Rightarrow> server \<Rightarrow> syscall list \<Rightarrow> fault + (server \<times> syscall list)" where
  "server_accept_run [] s tr = Inr (s, tr)"
| "server_accept_run (io # ios) s tr =
     (case server_event_handle_listener io s tr of
        Inl e \<Rightarrow> Inl e
      | Inr (s1, tr1) \<Rightarrow> server_accept_run ios s1 tr1)"

text \<open>
  A client is handed to a worker when its descriptor is registered with the worker's
  multiplexer: the connections a worker has received are the successful
  \<open>EPOLL_CTL_ADD\<close> calls on its \<open>event_fd\<close>.
\<close>

fun is_registration :: "int \<Rightarrow> syscall \<Rightarrow> bool" where
  "is_registration efd (Sys_epoll_ctl e opr fd ev p r) =
     (e = efd \<and> opr = EPOLL_CTL_ADD \<and> 0 \<le> r)"
| "is_registration efd _ = False"

definition connections_of :: "int \<Rightarrow> syscall list \<Rightarrow> nat" where
  "connections_of efd tr = length (filter (is_registration efd) tr)"

section \<open>Server startup\<close>

text \<open>
  What the environment answers to one call of \<open>_worker_create\<close>: the return values of
  \<open>epoll_create1\<close> and \<open>mempool_init\<close> and whether \<open>thrd_create\<close> succeeds.
\<close>

record create_io =
  epoll_create1_ret :: int
  mempool_init_ret :: int
  thrd_create_ok :: bool

text \<open>
  \<open>_worker_create\<close> stores 0 into \<open>is_alive\<close>; the flag is set afterwards by the worker's
  own thread, so the value the record holds is the one this thread wrote. What the
  server reads from the flag later is an input of the wait loop below.
\<close>

definition worker_create ::
  "create_io \<Rightarrow> 32 word \<Rightarrow> syscall list \<Rightarrow> worker option \<times> syscall list" where
  "worker_create io idx tr =
     (let efd = epoll_create1_ret io;
          tr1 = tr @ [Sys_epoll_create1 efd]
      in if efd < 0 then (None, tr1)
         else if mempool_init_ret io < 0 then (None, tr1 @ [Sys_close efd])
         else if \<not> thrd_create_ok io then (None, tr1 @ [Sys_close efd])
         else (Some \<lparr>index = idx, is_alive = False, event_fd = efd, clients = Map.empty\<rparr>, tr1))"

definition worker_on_destroy_active_client :: "client \<Rightarrow> syscall list \<Rightarrow> syscall list" where
  "worker_on_destroy_active_client c tr = tr @ [Sys_close (src_fd c)]"

text \<open>
  Modelled from the spec: \<open>mempool_deinit\<close>, the slab's \<open>drain(callback)\<close>, which calls
  the callback on every record still allocated. The order in which the pool visits its
  slots is the pool's own; it is the argument \<open>live\<close>.
\<close>

definition worker_destroy :: "addr list \<Rightarrow> worker \<Rightarrow> syscall list \<Rightarrow> syscall list" where
  "worker_destroy live w tr =
     fold (\<lambda>a tr1. case clients w a of
                      None \<Rightarrow> tr1
                    | Some c \<Rightarrow> worker_on_destroy_active_client c tr1)
          live (tr @ [Sys_close (event_fd w)])"

text \<open>The first loop of \<open>_server_create_workers\<close>: it stops at the first worker that
  cannot be created.\<close>

function server_create_loop ::
  "(nat \<Rightarrow> create_io) \<Rightarrow> nat \<Rightarrow> nat \<Rightarrow> worker list \<Rightarrow> syscall list
     \<Rightarrow> bool \<times> worker list \<times> syscall list" where
  "server_create_loop cio i n ws tr =
     (if i < n
      then (case worker_create (cio i) (of_nat i) tr of
              (None, tr1) \<Rightarrow> (False, ws, tr1)
            | (Some w, tr1) \<Rightarrow> server_create_loop cio (Suc i) n (ws @ [w]) tr1)
      else (True, ws, tr))"
  by pat_completeness auto
termination
  by (relation "measure (\<lambda>(cio, i, n, ws, tr). n - i)") auto

declare server_create_loop.simps [simp del]

text \<open>
  The second loop of \<open>_server_create_workers\<close>, which runs after \<open>workers_curr\<close>,
  \<open>workers_len\<close> and \<open>workers\<close> of the server have been set:
  \<^verbatim>\<open>for (unsigned j = 0; j < i;) { if (atomic_load(&s->workers[j].is_alive)) j++; usleep(10000); }\<close>
  \<open>alive t j\<close> is what the \<open>t\<close>-th load of the loop reads from the flag of worker \<open>j\<close>,
  which that worker's thread writes. The field \<open>is_alive\<close> of a worker record holds what
  this thread has last written to the flag or read from it, so every load stores the
  value it reads into the record. The loop has no bound: the result is \<open>None\<close> when it
  runs forever. \<open>i\<close> is the number of workers, so \<open>j\<close> stays inside the array.
\<close>

partial_function (option) server_wait_workers ::
  "(nat \<Rightarrow> nat \<Rightarrow> bool) \<Rightarrow> nat \<Rightarrow> nat \<Rightarrow> nat \<Rightarrow> server \<Rightarrow> syscall list
     \<Rightarrow> (server \<times> syscall list) option" where
  "server_wait_workers alive t j i s tr =
     (if j < i
      then server_wait_workers alive (Suc t) (if alive t j then Suc j else j) i
             (s\<lparr>workers := (workers s)[j := (workers s ! j)\<lparr>worker.is_alive := alive t j\<rparr>]\<rparr>)
             (tr @ [Sys_usleep 10000])
      else Some (s, tr))"

text \<open>
  \<open>_server_create_workers\<close>. On the error path the workers created so far are destroyed,
  last first; no client has been added to any of them, so their pools have no slot to
  visit.
\<close>

definition server_create_workers ::
  "int \<Rightarrow> bool \<Rightarrow> (nat \<Rightarrow> create_io) \<Rightarrow> (nat \<Rightarrow> nat \<Rightarrow> bool) \<Rightarrow> server \<Rightarrow> syscall list
     \<Rightarrow> (fault + (int \<times> server \<times> syscall list)) option" where
  "server_create_workers nprocs malloc_ok cio alive s tr =
     (if \<not> 0 < nprocs then Some (Inl Assertion_failed)
      else if \<not> malloc_ok then Some (Inr (- 1, s, tr))
      else
        (case server_create_loop cio 0 (nat nprocs) [] tr of
           (False, ws, tr1) \<Rightarrow> Some (Inr (- 1, s, fold (worker_destroy []) (rev ws) tr1))
         | (True, ws, tr1) \<Rightarrow>
             (case server_wait_workers alive 0 0 (length ws)
                     (s\<lparr>workers_curr := 0, workers_len := of_nat (nat nprocs), workers := ws\<rparr>)
                     tr1 of
                None \<Rightarrow> None
              | Some (s2, tr2) \<Rightarrow> Some (Inr (0, s2, tr2)))))"

text \<open>
  The polls of a wait that ends. \<open>wait_schedule alive t j ts\<close> says that worker \<open>j\<close> is
  polled from poll \<open>t\<close> on and that its flag is read as set for the first time at poll
  \<open>hd ts\<close>, that worker \<open>j + 1\<close> is polled from the next poll on and read as set for the
  first time at the second poll of \<open>ts\<close>, and so on, one poll of \<open>ts\<close> for each worker.
\<close>

fun wait_schedule :: "(nat \<Rightarrow> nat \<Rightarrow> bool) \<Rightarrow> nat \<Rightarrow> nat \<Rightarrow> nat list \<Rightarrow> bool" where
  "wait_schedule alive t j [] = True"
| "wait_schedule alive t j (x # xs) =
     (t \<le> x \<and> alive x j \<and> (\<forall>u\<in>{t..<x}. \<not> alive u j) \<and> wait_schedule alive (Suc x) (Suc j) xs)"

section \<open>The peer invariant\<close>

text \<open>
  The data model's invariant on peer links: a link that is set is mutual, and both
  records are allocated in the same worker's pool.
\<close>

definition peers_mutual :: "worker \<Rightarrow> bool" where
  "peers_mutual w =
     (\<forall>a c p. clients w a = Some c \<and> peer c = Some p \<longrightarrow>
        (\<exists>pc. clients w p = Some pc \<and> peer pc = Some a))"

section \<open>Concrete states\<close>

definition crlf :: string where
  "crlf = [CHR 0x0D, CHR 0x0A]"

definition ex_request :: string where
  "ex_request = ''CONNECT example.com:443 HTTP/1.1'' @ crlf @ ''Host: example.com'' @ crlf @ crlf"

definition ex_client :: "client_state \<Rightarrow> int \<Rightarrow> addr \<Rightarrow> addr option \<Rightarrow> string \<Rightarrow> client" where
  "ex_client st fd a pr buf =
     \<lparr>type = CLIENT_TYPE_HTTP, state = st, src_fd = fd, trg_fd = - 1,
      event = \<lparr>events = EPOLLIN, data_ptr = Some a\<rparr>, peer = pr,
      url = \<lparr>host = None, port = None\<rparr>, sent = 0, recvd = 0, buffer = buf\<rparr>"

definition ex_worker :: "(addr \<rightharpoonup> client) \<Rightarrow> worker" where
  "ex_worker m = \<lparr>index = 0, is_alive = True, event_fd = 3, clients = m\<rparr>"

text \<open>A worker with one client in state HEADER whose buffer holds a complete request.\<close>

definition ex_header_worker :: worker where
  "ex_header_worker = ex_worker [1 \<mapsto> ex_client CLIENT_STATE_HEADER 7 1 None ex_request]"

text \<open>A worker with one tunnel pair, both halves in state FORWARD_ALL.\<close>

definition ex_tunnel_worker :: worker where
  "ex_tunnel_worker = ex_worker
     [1 \<mapsto> ex_client CLIENT_STATE_FORWARD_ALL 7 1 (Some 2) ''ping'',
      2 \<mapsto> ex_client CLIENT_STATE_FORWARD_ALL 8 2 (Some 1) ''pong'']"

definition ex_tunnel_after_del :: "fault + (worker \<times> syscall list)" where
  "ex_tunnel_after_del = worker_client_del 0 0 ex_tunnel_worker 1 []"

text \<open>A server with two workers, and answers of the environment.\<close>

definition ex_server :: server where
  "ex_server = \<lparr>is_alive = False, listen_fd = 4, signal_fd = 5, workers_curr = 0,
                 workers_len = 2,
                 workers = [\<lparr>index = 0, is_alive = True, event_fd = 10, clients = Map.empty\<rparr>,
                            \<lparr>index = 1, is_alive = True, event_fd = 11, clients = Map.empty\<rparr>]\<rparr>"

definition ex_io :: "int \<Rightarrow> addr \<Rightarrow> int \<Rightarrow> listener_io" where
  "ex_io fd a r = \<lparr>accept_ret = fd, alloc_ret = Some (a, ex_client CLIENT_STATE_STOP 0 0 None []),
                   epoll_add_ret = r\<rparr>"

definition ex_create_io :: "nat \<Rightarrow> create_io" where
  "ex_create_io i = \<lparr>epoll_create1_ret = 10 + int i, mempool_init_ret = 0, thrd_create_ok = True\<rparr>"

definition ex_never_alive :: "nat \<Rightarrow> nat \<Rightarrow> bool" where
  "ex_never_alive t j = False"

definition ex_always_alive :: "nat \<Rightarrow> nat \<Rightarrow> bool" where
  "ex_always_alive t j = True"

section \<open>Facts about deletion\<close>

lemma bytes_written_Nil [simp]: "bytes_written fd [] = []"
  by (simp add: bytes_written_def)

lemma bytes_written_append [simp]:
  "bytes_written fd (tr @ tr') = bytes_written fd tr @ bytes_written fd tr'"
  by (simp add: bytes_written_def)

lemma bytes_written_ctl [simp]:
  "bytes_written fd (Sys_epoll_ctl e opr f ev p r # tr) = bytes_written fd tr"
  by (simp add: bytes_written_def)

lemma bytes_written_close [simp]:
  "bytes_written fd (Sys_close f # tr) = bytes_written fd tr"
  by (simp add: bytes_written_def)

lemma del_peer_ok:
  assumes "clients w p = Some pc" "0 \<le> mod_ret"
  shows "worker_client_del_peer mod_ret w p tr =
     Inr (w\<lparr>clients := (clients w)(p \<mapsto> pc\<lparr>event := (event pc)\<lparr>events := EPOLLIN OR EPOLLOUT\<rparr>,
                                         state := CLIENT_STATE_STOP, peer := None\<rparr>)\<rparr>,
          tr @ [Sys_epoll_ctl (event_fd w) EPOLL_CTL_MOD (src_fd pc) (EPOLLIN OR EPOLLOUT)
                  (data_ptr (event pc)) mod_ret])"
  using assms by (simp add: worker_client_del_peer_def Let_def)

lemma del_self_ok:
  assumes "clients w a = Some c" "0 \<le> del_ret"
  shows "worker_client_del_self del_ret w a tr =
     Inr (w\<lparr>clients := (clients w)(a := None)\<rparr>,
          tr @ [Sys_epoll_ctl (event_fd w) EPOLL_CTL_DEL (src_fd c) (events (event c))
                  (data_ptr (event c)) del_ret, Sys_close (src_fd c)])"
  using assms by (simp add: worker_client_del_self_def Let_def mempool_free_def)

lemma del_no_peer:
  assumes "clients w a = Some c" "peer c = None"
  shows "worker_client_del mod_ret del_ret w a tr = worker_client_del_self del_ret w a tr"
  using assms by (simp add: worker_client_del_def)

lemma peers_mutual_after_del:
  assumes pm: "peers_mutual w" and a: "clients w a = Some c" and p: "peer c = Some p"
    and pa: "p \<noteq> a" and pc: "clients w p = Some pc"
  shows "peers_mutual
           (w\<lparr>clients := ((clients w)(p \<mapsto> pc\<lparr>event := e, state := s, peer := None\<rparr>))(a := None)\<rparr>)"
  unfolding peers_mutual_def
proof (intro allI impI, elim conjE)
  fix b cb q
  assume b: "clients (w\<lparr>clients :=
      ((clients w)(p \<mapsto> pc\<lparr>event := e, state := s, peer := None\<rparr>))(a := None)\<rparr>) b = Some cb"
    and q: "peer cb = Some q"
  from b have ba: "b \<noteq> a" by (auto split: if_splits)
  from b q have bp: "b \<noteq> p" by (auto split: if_splits)
  from b ba bp have b0: "clients w b = Some cb" by simp
  from pm b0 q obtain qc where qc: "clients w q = Some qc" "peer qc = Some b"
    unfolding peers_mutual_def by blast
  from pm a p obtain pc' where "clients w p = Some pc'" "peer pc' = Some a"
    unfolding peers_mutual_def by blast
  with pc have ppeer: "peer pc = Some a" by simp
  have qa: "q \<noteq> a" using qc a p bp by auto
  have qp: "q \<noteq> p" using qc pc ppeer ba by auto
  show "\<exists>qc. clients (w\<lparr>clients :=
      ((clients w)(p \<mapsto> pc\<lparr>event := e, state := s, peer := None\<rparr>))(a := None)\<rparr>) q = Some qc \<and>
      peer qc = Some b"
    using qc qa qp by simp
qed

lemma ex_tunnel_1:
  "clients ex_tunnel_worker 1 = Some (ex_client CLIENT_STATE_FORWARD_ALL 7 1 (Some 2) ''ping'')"
  by (simp add: ex_tunnel_worker_def ex_worker_def)

lemma ex_tunnel_2:
  "clients ex_tunnel_worker 2 = Some (ex_client CLIENT_STATE_FORWARD_ALL 8 2 (Some 1) ''pong'')"
  by (simp add: ex_tunnel_worker_def ex_worker_def)

lemma ex_tunnel_mutual: "peers_mutual ex_tunnel_worker"
  by (auto simp add: peers_mutual_def ex_tunnel_worker_def ex_worker_def ex_client_def
      split: if_splits)

lemma ex_tunnel_after_del_eq:
  "ex_tunnel_after_del =
     Inr (ex_worker [2 \<mapsto> (ex_client CLIENT_STATE_STOP 8 2 None ''pong'')
                          \<lparr>event := \<lparr>events = 5, data_ptr = Some 2\<rparr>\<rparr>],
          [Sys_epoll_ctl 3 EPOLL_CTL_MOD 8 5 (Some 2) 0,
           Sys_epoll_ctl 3 EPOLL_CTL_DEL 7 1 (Some 1) 0, Sys_close 7])"
  by (auto simp add: ex_tunnel_after_del_def worker_client_del_def worker_client_del_peer_def
      worker_client_del_self_def mempool_free_def url_free_def Let_def
      ex_tunnel_worker_def ex_worker_def ex_client_def EPOLLIN_def EPOLLOUT_def fun_eq_iff)

section \<open>The claims about the state machine\<close>

text \<open>
  Claim C1 says that the HEADER handler, run on a buffer that holds a complete, valid
  request, returns RESOLVER. It does not: on the client of \<open>ex_header_worker\<close>, which is in
  state HEADER and whose buffer holds the request
  \<open>CONNECT example.com:443 HTTP/1.1\<close> with its \<open>Host\<close> line and the empty line, the
  handler returns a state other than RESOLVER.
\<close>

theorem header_valid_request_not_resolver:
  "map_option state (clients ex_header_worker 1) = Some CLIENT_STATE_HEADER \<and>
   map_option buffer (clients ex_header_worker 1) = Some ex_request \<and>
   fst (worker_client_state_header ex_header_worker 1 []) \<noteq> CLIENT_STATE_RESOLVER"
  by (simp add: ex_header_worker_def ex_worker_def ex_client_def worker_client_state_header_def)

text \<open>
  Claim C1, amended: for every client record in state HEADER, the handler the dispatch
  selects returns STOP whatever the buffer holds, and changes neither the worker nor the
  trace of system calls.
\<close>

theorem header_state_always_stops:
  assumes "clients w a = Some c" and "state c = CLIENT_STATE_HEADER"
  shows "worker_client_state_switch w a (state c) tr = (CLIENT_STATE_STOP, w, tr) \<and>
         worker_client_state_header w a tr = (CLIENT_STATE_STOP, w, tr)"
  using assms by (simp add: worker_client_state_switch_def worker_client_state_header_def)

theorem header_state_always_stops_witness:
  "clients ex_header_worker 1 = Some (ex_client CLIENT_STATE_HEADER 7 1 None ex_request) \<and>
   state (ex_client CLIENT_STATE_HEADER 7 1 None ex_request) = CLIENT_STATE_HEADER \<and>
   worker_client_state_switch ex_header_worker 1
     (state (ex_client CLIENT_STATE_HEADER 7 1 None ex_request)) []
     = (CLIENT_STATE_STOP, ex_header_worker, [])"
proof -
  have 1: "clients ex_header_worker 1 = Some (ex_client CLIENT_STATE_HEADER 7 1 None ex_request)"
    by (simp add: ex_header_worker_def ex_worker_def)
  have 2: "state (ex_client CLIENT_STATE_HEADER 7 1 None ex_request) = CLIENT_STATE_HEADER"
    by (simp add: ex_client_def)
  from header_state_always_stops [OF 1 2, of "[]"] 1 2 show ?thesis by simp
qed

text \<open>
  Claim C2 says that the FORWARD_ALL handler relays the bytes read on one side to the
  peer's socket and stays in FORWARD_ALL while neither side has seen end of file or an
  error. It does not stay: on the tunnel pair of \<open>ex_tunnel_worker\<close>, both halves in
  FORWARD_ALL and linked to each other, the handler returns a state other than
  FORWARD_ALL.
\<close>

theorem forward_all_leaves_state:
  "map_option state (clients ex_tunnel_worker 1) = Some CLIENT_STATE_FORWARD_ALL \<and>
   map_option state (clients ex_tunnel_worker 2) = Some CLIENT_STATE_FORWARD_ALL \<and>
   map_option peer (clients ex_tunnel_worker 1) = Some (Some 2) \<and>
   map_option peer (clients ex_tunnel_worker 2) = Some (Some 1) \<and>
   fst (worker_client_state_forward_all ex_tunnel_worker 1 []) \<noteq> CLIENT_STATE_FORWARD_ALL"
  by (simp add: ex_tunnel_worker_def ex_worker_def ex_client_def
      worker_client_state_forward_all_def)

text \<open>
  Claim C2, amended: for every tunnel pair with both clients in state FORWARD_ALL, the
  handler the dispatch selects, on either side, makes no system call (it reads nothing
  and writes nothing to the peer's socket), leaves the worker as it is and returns STOP.
\<close>

theorem forward_all_stops_without_io:
  assumes "clients w a = Some c" and "state c = CLIENT_STATE_FORWARD_ALL"
    and "peer c = Some p" and "clients w p = Some pc" and "state pc = CLIENT_STATE_FORWARD_ALL"
  shows "worker_client_state_switch w a (state c) tr = (CLIENT_STATE_STOP, w, tr) \<and>
         worker_client_state_switch w p (state pc) tr = (CLIENT_STATE_STOP, w, tr) \<and>
         bytes_written (src_fd pc) (snd (snd (worker_client_state_forward_all w a tr))) =
           bytes_written (src_fd pc) tr \<and>
         bytes_written (src_fd c) (snd (snd (worker_client_state_forward_all w p tr))) =
           bytes_written (src_fd c) tr"
  using assms by (simp add: worker_client_state_switch_def worker_client_state_forward_all_def)

theorem forward_all_stops_without_io_witness:
  "worker_client_state_switch ex_tunnel_worker 1 CLIENT_STATE_FORWARD_ALL [] =
     (CLIENT_STATE_STOP, ex_tunnel_worker, []) \<and>
   worker_client_state_switch ex_tunnel_worker 2 CLIENT_STATE_FORWARD_ALL [] =
     (CLIENT_STATE_STOP, ex_tunnel_worker, [])"
  using forward_all_stops_without_io [OF ex_tunnel_1 _ _ ex_tunnel_2, of "[]"]
  by (simp add: ex_client_def)

section \<open>The claims about deletion and dispatch\<close>

text \<open>
  Claim C3: for every client record with a non-null peer link, \<open>_worker_client_del\<close>
  first sets the partner's peer field to null and updates the partner's readiness
  interest, and only afterwards deregisters, closes and frees the departing record; so
  no surviving record holds a peer pointer to a freed slot.

  The pool satisfies the peer invariant and both \<open>epoll_ctl\<close> calls succeed. After the
  peer block (\<open>w1\<close>, \<open>tr1\<close>) the partner's link is null, its interest is
  \<open>EPOLLIN | EPOLLOUT\<close> and the multiplexer has been told, while the departing record is
  still allocated and untouched; the deletion then continues from that state, appends
  the deregistration and the close to the trace and frees the slot. In the final pool the
  peer invariant holds again, and every peer link of an allocated record points to an
  allocated record.
\<close>

theorem client_del_unlinks_peer_first:
  assumes pm: "peers_mutual w" and a: "clients w a = Some c" and p: "peer c = Some p"
    and pa: "p \<noteq> a" and m: "0 \<le> mod_ret" and d: "0 \<le> del_ret"
  shows "\<exists>pc w1 tr1 w2 tr2.
     clients w p = Some pc \<and>
     worker_client_del_peer mod_ret w p tr = Inr (w1, tr1) \<and>
     map_option peer (clients w1 p) = Some None \<and>
     map_option (\<lambda>x. events (event x)) (clients w1 p) = Some (EPOLLIN OR EPOLLOUT) \<and>
     tr1 = tr @ [Sys_epoll_ctl (event_fd w) EPOLL_CTL_MOD (src_fd pc) (EPOLLIN OR EPOLLOUT)
                   (data_ptr (event pc)) mod_ret] \<and>
     clients w1 a = Some c \<and>
     worker_client_del mod_ret del_ret w a tr = worker_client_del_self del_ret w1 a tr1 \<and>
     worker_client_del_self del_ret w1 a tr1 = Inr (w2, tr2) \<and>
     tr2 = tr1 @ [Sys_epoll_ctl (event_fd w) EPOLL_CTL_DEL (src_fd c) (events (event c))
                    (data_ptr (event c)) del_ret, Sys_close (src_fd c)] \<and>
     clients w2 a = None \<and>
     peers_mutual w2 \<and>
     (\<forall>b cb q. clients w2 b = Some cb \<and> peer cb = Some q \<longrightarrow> clients w2 q \<noteq> None)"
proof -
  from pm a p obtain pc where pc: "clients w p = Some pc" and ppeer: "peer pc = Some a"
    unfolding peers_mutual_def by blast
  define pc1 where "pc1 = pc\<lparr>event := (event pc)\<lparr>events := EPOLLIN OR EPOLLOUT\<rparr>,
                                state := CLIENT_STATE_STOP, peer := None\<rparr>"
  define w1 where "w1 = w\<lparr>clients := (clients w)(p \<mapsto> pc1)\<rparr>"
  define tr1 where "tr1 = tr @ [Sys_epoll_ctl (event_fd w) EPOLL_CTL_MOD (src_fd pc)
                     (EPOLLIN OR EPOLLOUT) (data_ptr (event pc)) mod_ret]"
  define w2 where "w2 = w1\<lparr>clients := (clients w1)(a := None)\<rparr>"
  define tr2 where "tr2 = tr1 @ [Sys_epoll_ctl (event_fd w1) EPOLL_CTL_DEL (src_fd c)
                     (events (event c)) (data_ptr (event c)) del_ret, Sys_close (src_fd c)]"
  have s1: "worker_client_del_peer mod_ret w p tr = Inr (w1, tr1)"
    unfolding w1_def tr1_def pc1_def by (rule del_peer_ok [OF pc m])
  have a1: "clients w1 a = Some c"
    using a pa by (simp add: w1_def)
  have s2: "worker_client_del_self del_ret w1 a tr1 = Inr (w2, tr2)"
    unfolding w2_def tr2_def by (rule del_self_ok [OF a1 d])
  have s3: "worker_client_del mod_ret del_ret w a tr = worker_client_del_self del_ret w1 a tr1"
    using a p s1 by (simp add: worker_client_del_def)
  have w2eq: "w2 = w\<lparr>clients := ((clients w)(p \<mapsto>
                  pc\<lparr>event := (event pc)\<lparr>events := EPOLLIN OR EPOLLOUT\<rparr>,
                     state := CLIENT_STATE_STOP, peer := None\<rparr>))(a := None)\<rparr>"
    by (simp add: w2_def w1_def pc1_def)
  have pm2: "peers_mutual w2"
    unfolding w2eq by (rule peers_mutual_after_del [OF pm a p pa pc])
  have nd: "\<forall>b cb q. clients w2 b = Some cb \<and> peer cb = Some q \<longrightarrow> clients w2 q \<noteq> None"
    using pm2 unfolding peers_mutual_def by fastforce
  have e1: "map_option peer (clients w1 p) = Some None"
    by (simp add: w1_def pc1_def)
  have e2: "map_option (\<lambda>x. events (event x)) (clients w1 p) = Some (EPOLLIN OR EPOLLOUT)"
    by (simp add: w1_def pc1_def)
  have e3: "tr2 = tr1 @ [Sys_epoll_ctl (event_fd w) EPOLL_CTL_DEL (src_fd c) (events (event c))
                    (data_ptr (event c)) del_ret, Sys_close (src_fd c)]"
    by (simp add: tr2_def w1_def)
  have e4: "clients w2 a = None"
    by (simp add: w2_def)
  from pc s1 e1 e2 tr1_def a1 s3 s2 e3 e4 pm2 nd show ?thesis
    by blast
qed

theorem client_del_unlinks_peer_first_witness:
  "peers_mutual ex_tunnel_worker \<and>
   (\<exists>w2 tr2. worker_client_del 0 0 ex_tunnel_worker 1 [] = Inr (w2, tr2) \<and>
      clients w2 1 = None \<and> map_option peer (clients w2 2) = Some None \<and>
      tr2 = [Sys_epoll_ctl 3 EPOLL_CTL_MOD 8 5 (Some 2) 0,
             Sys_epoll_ctl 3 EPOLL_CTL_DEL 7 1 (Some 1) 0, Sys_close 7])"
proof -
  have pe: "peer (ex_client CLIENT_STATE_FORWARD_ALL 7 1 (Some 2) ''ping'') = Some 2"
    by (simp add: ex_client_def)
  from client_del_unlinks_peer_first [OF ex_tunnel_mutual ex_tunnel_1 pe, of 0 0 "[]"]
  obtain pc w1 tr1 w2 tr2 where
    h: "clients ex_tunnel_worker 2 = Some pc"
       "worker_client_del_peer 0 ex_tunnel_worker 2 [] = Inr (w1, tr1)"
       "tr1 = [] @ [Sys_epoll_ctl (event_fd ex_tunnel_worker) EPOLL_CTL_MOD (src_fd pc)
                   (EPOLLIN OR EPOLLOUT) (data_ptr (event pc)) 0]"
       "worker_client_del 0 0 ex_tunnel_worker 1 [] = worker_client_del_self 0 w1 1 tr1"
       "worker_client_del_self 0 w1 1 tr1 = Inr (w2, tr2)"
       "tr2 = tr1 @ [Sys_epoll_ctl (event_fd ex_tunnel_worker) EPOLL_CTL_DEL
                    (src_fd (ex_client CLIENT_STATE_FORWARD_ALL 7 1 (Some 2) ''ping''))
                    (events (event (ex_client CLIENT_STATE_FORWARD_ALL 7 1 (Some 2) ''ping'')))
                    (data_ptr (event (ex_client CLIENT_STATE_FORWARD_ALL 7 1 (Some 2) ''ping''))) 0,
                    Sys_close (src_fd (ex_client CLIENT_STATE_FORWARD_ALL 7 1 (Some 2) ''ping''))]"
       "clients w2 1 = None" "map_option peer (clients w1 2) = Some None"
    by auto
  from h(1) ex_tunnel_2 have pc: "pc = ex_client CLIENT_STATE_FORWARD_ALL 8 2 (Some 1) ''pong''"
    by simp
  from h(2) h(8) have "map_option peer (clients w2 2) = Some None"
    using h(5) h(1)
    by (auto simp add: worker_client_del_self_def worker_client_del_peer_def Let_def
        mempool_free_def split: option.splits if_splits)
  moreover have "tr2 = [Sys_epoll_ctl 3 EPOLL_CTL_MOD 8 5 (Some 2) 0,
             Sys_epoll_ctl 3 EPOLL_CTL_DEL 7 1 (Some 1) 0, Sys_close 7]"
    using h(3) h(6) pc
    by (simp add: ex_client_def ex_tunnel_worker_def ex_worker_def EPOLLIN_def EPOLLOUT_def)
  ultimately show ?thesis using ex_tunnel_mutual h(4) h(5) h(7) by simp
qed

text \<open>
  Claim C4 says that, once \<open>_worker_client_del\<close> has freed the client's slot,
  \<open>_worker_handle_client_state\<close> touches the record no more. On the client of
  \<open>ex_header_worker\<close> the dispatch up to the deletion returns STOP with the slot freed,
  and the statement \<open>client->state = state\<close> that follows writes to the freed slot: the
  dispatch ends in an invalid access.
\<close>

theorem handle_client_state_stores_after_free:
  "worker_handle_client_state_del 0 0 ex_header_worker 1 [] =
     Inr (CLIENT_STATE_STOP, ex_worker Map.empty,
          [Sys_epoll_ctl 3 EPOLL_CTL_DEL 7 1 (Some 1) 0, Sys_close 7]) \<and>
   clients (ex_worker Map.empty) 1 = None \<and>
   worker_handle_client_state 0 0 ex_header_worker 1 [] = Inl (Invalid_access 1)"
  by (simp add: worker_handle_client_state_def worker_handle_client_state_del_def
      worker_client_state_switch_def worker_client_state_header_def worker_client_del_def
      worker_client_del_self_def mempool_free_def url_free_def Let_def
      ex_header_worker_def ex_worker_def ex_client_def EPOLLIN_def)

text \<open>
  Claim C5 says that the surviving half of a tunnel pair gets one opportunity to flush
  its pending output to its socket before it reaches STOP and is torn down. On the pair
  of \<open>ex_tunnel_worker\<close>, deleting client 1 puts client 2 into state STOP at once, its
  buffer still holding \<open>pong\<close> and nothing written to its socket 8; its next dispatch
  deletes it, and still nothing has been written to socket 8.
\<close>

theorem survivor_stopped_without_flush:
  "\<not> isl ex_tunnel_after_del \<and>
   map_option state (clients (fst (projr ex_tunnel_after_del)) 2) = Some CLIENT_STATE_STOP \<and>
   map_option buffer (clients (fst (projr ex_tunnel_after_del)) 2) = Some ''pong'' \<and>
   bytes_written 8 (snd (projr ex_tunnel_after_del)) = [] \<and>
   worker_handle_client_state_del 0 0 (fst (projr ex_tunnel_after_del)) 2
       (snd (projr ex_tunnel_after_del)) =
     Inr (CLIENT_STATE_STOP, ex_worker Map.empty,
          [Sys_epoll_ctl 3 EPOLL_CTL_MOD 8 5 (Some 2) 0,
           Sys_epoll_ctl 3 EPOLL_CTL_DEL 7 1 (Some 1) 0, Sys_close 7,
           Sys_epoll_ctl 3 EPOLL_CTL_DEL 8 5 (Some 2) 0, Sys_close 8]) \<and>
   bytes_written 8
          [Sys_epoll_ctl 3 EPOLL_CTL_MOD 8 5 (Some 2) 0,
           Sys_epoll_ctl 3 EPOLL_CTL_DEL 7 1 (Some 1) 0, Sys_close 7,
           Sys_epoll_ctl 3 EPOLL_CTL_DEL 8 5 (Some 2) 0, Sys_close 8] = []"
  unfolding ex_tunnel_after_del_eq
  by (simp add: worker_handle_client_state_del_def
      worker_client_state_switch_def worker_client_del_def
      worker_client_del_self_def mempool_free_def url_free_def Let_def
      ex_worker_def ex_client_def bytes_written_def)

text \<open>
  Claim C5, amended: when one half of a tunnel pair is deleted, the surviving half gets
  the interest \<open>EPOLLIN | EPOLLOUT\<close> (one \<open>EPOLL_CTL_MOD\<close> on its descriptor), the state
  STOP and a null peer link, and nothing is written to any socket; when the survivor is
  dispatched next, the switch runs no handler and \<open>_worker_client_del\<close> deregisters its
  descriptor (one \<open>EPOLL_CTL_DEL\<close>), closes it and frees its slot, again with nothing
  written to any socket. The theorem gives the worker and the trace after each of the
  two steps.
\<close>

theorem survivor_deleted_without_write:
  assumes pm: "peers_mutual w" and a: "clients w a = Some c" and p: "peer c = Some p"
    and pa: "p \<noteq> a" and m: "0 \<le> mod_ret" and d: "0 \<le> del_ret" and d2: "0 \<le> del_ret2"
  shows "\<exists>pc pc1 w1 tr1 w2 tr2.
     clients w p = Some pc \<and>
     pc1 = pc\<lparr>event := (event pc)\<lparr>events := EPOLLIN OR EPOLLOUT\<rparr>,
              state := CLIENT_STATE_STOP, peer := None\<rparr> \<and>
     w1 = w\<lparr>clients := ((clients w)(p \<mapsto> pc1))(a := None)\<rparr> \<and>
     tr1 = tr @ [Sys_epoll_ctl (event_fd w) EPOLL_CTL_MOD (src_fd pc) (EPOLLIN OR EPOLLOUT)
                   (data_ptr (event pc)) mod_ret,
                 Sys_epoll_ctl (event_fd w) EPOLL_CTL_DEL (src_fd c) (events (event c))
                   (data_ptr (event c)) del_ret,
                 Sys_close (src_fd c)] \<and>
     worker_client_del mod_ret del_ret w a tr = Inr (w1, tr1) \<and>
     clients w1 p = Some pc1 \<and> state pc1 = CLIENT_STATE_STOP \<and> peer pc1 = None \<and>
     events (event pc1) = EPOLLIN OR EPOLLOUT \<and>
     (\<forall>fd. bytes_written fd tr1 = bytes_written fd tr) \<and>
     worker_client_state_switch w1 p (state pc1) tr1 = (CLIENT_STATE_STOP, w1, tr1) \<and>
     w2 = w\<lparr>clients := ((clients w)(p := None))(a := None)\<rparr> \<and>
     tr2 = tr1 @ [Sys_epoll_ctl (event_fd w) EPOLL_CTL_DEL (src_fd pc) (EPOLLIN OR EPOLLOUT)
                    (data_ptr (event pc)) del_ret2,
                  Sys_close (src_fd pc)] \<and>
     worker_handle_client_state_del mod_ret2 del_ret2 w1 p tr1 = Inr (CLIENT_STATE_STOP, w2, tr2) \<and>
     clients w2 p = None \<and> clients w2 a = None \<and>
     (\<forall>fd. bytes_written fd tr2 = bytes_written fd tr)"
proof -
  from pm a p obtain pc where pc: "clients w p = Some pc"
    unfolding peers_mutual_def by blast
  define pc1 where "pc1 = pc\<lparr>event := (event pc)\<lparr>events := EPOLLIN OR EPOLLOUT\<rparr>,
                                state := CLIENT_STATE_STOP, peer := None\<rparr>"
  define w0 where "w0 = w\<lparr>clients := (clients w)(p \<mapsto> pc1)\<rparr>"
  define tr0 where "tr0 = tr @ [Sys_epoll_ctl (event_fd w) EPOLL_CTL_MOD (src_fd pc)
                     (EPOLLIN OR EPOLLOUT) (data_ptr (event pc)) mod_ret]"
  define w1 where "w1 = w\<lparr>clients := ((clients w)(p \<mapsto> pc1))(a := None)\<rparr>"
  define tr1 where "tr1 = tr @ [Sys_epoll_ctl (event_fd w) EPOLL_CTL_MOD (src_fd pc)
                     (EPOLLIN OR EPOLLOUT) (data_ptr (event pc)) mod_ret,
                   Sys_epoll_ctl (event_fd w) EPOLL_CTL_DEL (src_fd c) (events (event c))
                     (data_ptr (event c)) del_ret,
                   Sys_close (src_fd c)]"
  define w2 where "w2 = w\<lparr>clients := ((clients w)(p := None))(a := None)\<rparr>"
  define tr2 where "tr2 = tr1 @ [Sys_epoll_ctl (event_fd w) EPOLL_CTL_DEL (src_fd pc)
                     (EPOLLIN OR EPOLLOUT) (data_ptr (event pc)) del_ret2, Sys_close (src_fd pc)]"
  have s1: "worker_client_del_peer mod_ret w p tr = Inr (w0, tr0)"
    unfolding w0_def tr0_def pc1_def by (rule del_peer_ok [OF pc m])
  have a0: "clients w0 a = Some c"
    using a pa by (simp add: w0_def)
  have s2: "worker_client_del_self del_ret w0 a tr0 = Inr (w1, tr1)"
    unfolding del_self_ok [OF a0 d] by (simp add: w1_def tr1_def w0_def tr0_def)
  have s3: "worker_client_del mod_ret del_ret w a tr = Inr (w1, tr1)"
    using a p s1 s2 by (simp add: worker_client_del_def)
  have p1: "clients w1 p = Some pc1"
    using pa by (simp add: w1_def)
  have st: "state pc1 = CLIENT_STATE_STOP" and pe: "peer pc1 = None"
    and ev: "events (event pc1) = EPOLLIN OR EPOLLOUT"
    by (simp_all add: pc1_def)
  have b1: "\<forall>fd. bytes_written fd tr1 = bytes_written fd tr"
    by (simp add: tr1_def)
  have sw: "worker_client_state_switch w1 p (state pc1) tr1 = (CLIENT_STATE_STOP, w1, tr1)"
    by (simp add: st worker_client_state_switch_def)
  have m2: "(clients w1)(p := None) = ((clients w)(p := None))(a := None)"
    using pa by (auto simp add: w1_def fun_eq_iff)
  have w2eq: "w1\<lparr>clients := (clients w1)(p := None)\<rparr> = w2"
    unfolding m2 by (simp add: w1_def w2_def)
  have trq: "tr1 @ [Sys_epoll_ctl (event_fd w1) EPOLL_CTL_DEL (src_fd pc1) (events (event pc1))
                      (data_ptr (event pc1)) del_ret2, Sys_close (src_fd pc1)] = tr2"
    by (simp add: tr2_def w1_def pc1_def)
  have s4: "worker_client_del mod_ret2 del_ret2 w1 p tr1 = Inr (w2, tr2)"
    unfolding del_no_peer [OF p1 pe] del_self_ok [OF p1 d2] w2eq trq ..
  have s5: "worker_handle_client_state_del mod_ret2 del_ret2 w1 p tr1 =
              Inr (CLIENT_STATE_STOP, w2, tr2)"
    using p1 sw s4 by (simp add: worker_handle_client_state_del_def)
  have f2: "clients w2 p = None" "clients w2 a = None"
    by (simp_all add: w2_def)
  have b2: "\<forall>fd. bytes_written fd tr2 = bytes_written fd tr"
    using b1 by (simp add: tr2_def)
  from pc pc1_def w1_def tr1_def s3 p1 st pe ev b1 sw w2_def tr2_def s5 f2 b2
  show ?thesis by blast
qed

theorem survivor_deleted_without_write_witness:
  "peers_mutual ex_tunnel_worker \<and>
   worker_client_del 0 0 ex_tunnel_worker 1 [] =
     Inr (ex_tunnel_worker\<lparr>clients := ((clients ex_tunnel_worker)(2 \<mapsto>
            (ex_client CLIENT_STATE_FORWARD_ALL 8 2 (Some 1) ''pong'')
              \<lparr>event := \<lparr>events = 5, data_ptr = Some 2\<rparr>, state := CLIENT_STATE_STOP,
                 peer := None\<rparr>))(1 := None)\<rparr>,
          [Sys_epoll_ctl 3 EPOLL_CTL_MOD 8 5 (Some 2) 0,
           Sys_epoll_ctl 3 EPOLL_CTL_DEL 7 1 (Some 1) 0, Sys_close 7]) \<and>
   worker_handle_client_state_del 0 0
       (ex_tunnel_worker\<lparr>clients := ((clients ex_tunnel_worker)(2 \<mapsto>
            (ex_client CLIENT_STATE_FORWARD_ALL 8 2 (Some 1) ''pong'')
              \<lparr>event := \<lparr>events = 5, data_ptr = Some 2\<rparr>, state := CLIENT_STATE_STOP,
                 peer := None\<rparr>))(1 := None)\<rparr>)
       2
       [Sys_epoll_ctl 3 EPOLL_CTL_MOD 8 5 (Some 2) 0,
        Sys_epoll_ctl 3 EPOLL_CTL_DEL 7 1 (Some 1) 0, Sys_close 7] =
     Inr (CLIENT_STATE_STOP,
          ex_tunnel_worker\<lparr>clients := ((clients ex_tunnel_worker)(2 := None))(1 := None)\<rparr>,
          [Sys_epoll_ctl 3 EPOLL_CTL_MOD 8 5 (Some 2) 0,
           Sys_epoll_ctl 3 EPOLL_CTL_DEL 7 1 (Some 1) 0, Sys_close 7,
           Sys_epoll_ctl 3 EPOLL_CTL_DEL 8 5 (Some 2) 0, Sys_close 8])"
proof -
  have pe: "peer (ex_client CLIENT_STATE_FORWARD_ALL 7 1 (Some 2) ''ping'') = Some 2"
    by (simp add: ex_client_def)
  have na: "(2::nat) \<noteq> 1" by simp
  have z: "(0::int) \<le> 0" by simp
  from survivor_deleted_without_write
    [OF ex_tunnel_mutual ex_tunnel_1 pe na z z z, of "[]" 0]
  obtain pc pc1 w1 tr1 w2 tr2 where
    h: "clients ex_tunnel_worker 2 = Some pc"
       "pc1 = pc\<lparr>event := (event pc)\<lparr>events := EPOLLIN OR EPOLLOUT\<rparr>,
              state := CLIENT_STATE_STOP, peer := None\<rparr>"
       "w1 = ex_tunnel_worker\<lparr>clients := ((clients ex_tunnel_worker)(2 \<mapsto> pc1))(1 := None)\<rparr>"
       "tr1 = [] @ [Sys_epoll_ctl (event_fd ex_tunnel_worker) EPOLL_CTL_MOD (src_fd pc)
                   (EPOLLIN OR EPOLLOUT) (data_ptr (event pc)) 0,
                 Sys_epoll_ctl (event_fd ex_tunnel_worker) EPOLL_CTL_DEL
                   (src_fd (ex_client CLIENT_STATE_FORWARD_ALL 7 1 (Some 2) ''ping''))
                   (events (event (ex_client CLIENT_STATE_FORWARD_ALL 7 1 (Some 2) ''ping'')))
                   (data_ptr (event (ex_client CLIENT_STATE_FORWARD_ALL 7 1 (Some 2) ''ping''))) 0,
                 Sys_close (src_fd (ex_client CLIENT_STATE_FORWARD_ALL 7 1 (Some 2) ''ping''))]"
       "worker_client_del 0 0 ex_tunnel_worker 1 [] = Inr (w1, tr1)"
       "w2 = ex_tunnel_worker\<lparr>clients := ((clients ex_tunnel_worker)(2 := None))(1 := None)\<rparr>"
       "tr2 = tr1 @ [Sys_epoll_ctl (event_fd ex_tunnel_worker) EPOLL_CTL_DEL (src_fd pc)
                    (EPOLLIN OR EPOLLOUT) (data_ptr (event pc)) 0, Sys_close (src_fd pc)]"
       "worker_handle_client_state_del 0 0 w1 2 tr1 = Inr (CLIENT_STATE_STOP, w2, tr2)"
    by blast
  from h(1) ex_tunnel_2 have pc: "pc = ex_client CLIENT_STATE_FORWARD_ALL 8 2 (Some 1) ''pong''"
    by simp
  have pc1: "pc1 = (ex_client CLIENT_STATE_FORWARD_ALL 8 2 (Some 1) ''pong'')
              \<lparr>event := \<lparr>events = 5, data_ptr = Some 2\<rparr>, state := CLIENT_STATE_STOP,
                 peer := None\<rparr>"
    unfolding h(2) pc by (simp add: ex_client_def EPOLLIN_def EPOLLOUT_def)
  have tr1: "tr1 = [Sys_epoll_ctl 3 EPOLL_CTL_MOD 8 5 (Some 2) 0,
           Sys_epoll_ctl 3 EPOLL_CTL_DEL 7 1 (Some 1) 0, Sys_close 7]"
    unfolding h(4) pc
    by (simp add: ex_client_def ex_tunnel_worker_def ex_worker_def EPOLLIN_def EPOLLOUT_def)
  have tr2: "tr2 = [Sys_epoll_ctl 3 EPOLL_CTL_MOD 8 5 (Some 2) 0,
           Sys_epoll_ctl 3 EPOLL_CTL_DEL 7 1 (Some 1) 0, Sys_close 7,
           Sys_epoll_ctl 3 EPOLL_CTL_DEL 8 5 (Some 2) 0, Sys_close 8]"
    unfolding h(7) tr1 pc
    by (simp add: ex_client_def ex_tunnel_worker_def ex_worker_def EPOLLIN_def EPOLLOUT_def)
  from h(5) h(8) show ?thesis
    unfolding h(3) h(6) pc1 tr1 tr2 using ex_tunnel_mutual by simp
qed

text \<open>
  Claim C6: when the deregistration of the departing client's descriptor fails, or the
  modification of its peer's interest fails, the process is terminated. The departing
  record is allocated and so is its peer, if it has one; whichever of the two
  \<open>epoll_ctl\<close> calls returns a negative value, the deletion ends in \<open>abort()\<close>.
\<close>

theorem client_del_aborts_on_epoll_failure:
  assumes a: "clients w a = Some c"
    and live: "\<forall>p. peer c = Some p \<longrightarrow> clients w p \<noteq> None"
    and fails: "(peer c \<noteq> None \<and> mod_ret < 0) \<or> del_ret < 0"
  shows "worker_client_del mod_ret del_ret w a tr = Inl Abort"
proof (cases "peer c")
  case None
  with fails have "del_ret < 0" by simp
  with a None show ?thesis
    by (simp add: worker_client_del_def worker_client_del_self_def Let_def)
next
  case (Some p)
  with live obtain pc where pc: "clients w p = Some pc" by auto
  show ?thesis
  proof (cases "mod_ret < 0")
    case True
    with a Some pc show ?thesis
      by (simp add: worker_client_del_def worker_client_del_peer_def Let_def)
  next
    case False
    with fails have d: "del_ret < 0" by simp
    from False have m: "0 \<le> mod_ret" by simp
    show ?thesis
      using a Some d del_peer_ok [OF pc m, of tr]
      by (simp add: worker_client_del_def worker_client_del_self_def Let_def)
  qed
qed

theorem client_del_aborts_on_epoll_failure_witness:
  "worker_client_del (- 1) 0 ex_tunnel_worker 1 [] = Inl Abort \<and>
   worker_client_del 0 (- 1) ex_tunnel_worker 1 [] = Inl Abort \<and>
   worker_client_del 0 (- 1) ex_header_worker 1 [] = Inl Abort"
proof -
  have h: "clients ex_header_worker 1 = Some (ex_client CLIENT_STATE_HEADER 7 1 None ex_request)"
    by (simp add: ex_header_worker_def ex_worker_def)
  have 1: "worker_client_del (- 1) 0 ex_tunnel_worker 1 [] = Inl Abort"
    using client_del_aborts_on_epoll_failure [OF ex_tunnel_1, of "- 1" 0 "[]"] ex_tunnel_2
    by (simp add: ex_client_def)
  have 2: "worker_client_del 0 (- 1) ex_tunnel_worker 1 [] = Inl Abort"
    using client_del_aborts_on_epoll_failure [OF ex_tunnel_1, of 0 "- 1" "[]"] ex_tunnel_2
    by (simp add: ex_client_def)
  have 3: "worker_client_del 0 (- 1) ex_header_worker 1 [] = Inl Abort"
    using client_del_aborts_on_epoll_failure [OF h, of 0 "- 1" "[]"]
    by (simp add: ex_client_def)
  from 1 2 3 show ?thesis by simp
qed

section \<open>Facts about round-robin counting\<close>

lemma rr_dist: 
  assumes "c < (W::nat)" "k < W"
  shows "(k + W - c) mod W = (if c \<le> k then k - c else k + W - c)"
proof (cases "c \<le> k")
  case True
  have e: "k + W - c = (k - c) + W" using True by arith
  have "((k - c) + W) mod W = k - c" using assms(2) by simp
  then have "(k + W - c) mod W = k - c" unfolding e .
  then show ?thesis using True by (simp only: if_True)
next
  case False
  then show ?thesis using assms by simp
qed

lemma rr_step:
  assumes c: "c < (W::nat)" and k: "k < W"
  shows "(if c = k then 1 else 0) + (n div W + (if (k + W - (c + 1) mod W) mod W < n mod W then 1 else 0))
       = Suc n div W + (if (k + W - c) mod W < Suc n mod W then (1::nat) else 0)"
proof -
  define c' where "c' = (c + 1) mod W"
  define d where "d = (k + W - c) mod W"
  define d' where "d' = (k + W - c') mod W"
  define r where "r = n mod W"
  define q where "q = n div W"
  have W: "0 < W" using c by simp
  have c'W: "c' < W" using W by (simp add: c'_def)
  have rW: "r < W" using W by (simp add: r_def)
  have c'_eq: "c' = (if c + 1 = W then 0 else c + 1)"
    using c by (simp add: c'_def)
  have d_eq: "d = (if c \<le> k then k - c else k + W - c)"
    unfolding d_def by (rule rr_dist [OF c k])
  have d'_eq: "d' = (if c' \<le> k then k - c' else k + W - c')"
    unfolding d'_def by (rule rr_dist [OF c'W k])
  have sd: "Suc n div W = (if Suc r = W then Suc q else q)"
    by (simp add: div_Suc mod_Suc r_def q_def)
  have sm: "Suc n mod W = (if Suc r = W then 0 else Suc r)"
    by (simp add: mod_Suc r_def)
  have "(if c = k then 1 else 0) + (q + (if d' < r then 1 else 0))
       = (if Suc r = W then Suc q else q) + (if d < (if Suc r = W then 0 else Suc r) then (1::nat) else 0)"
    using c k c'W rW c'_eq d_eq d'_eq by (auto split: if_splits)
  then show ?thesis
    unfolding sd sm unfolding c'_def d_def d'_def r_def q_def by simp
qed

lemma ceil_div:
  assumes "0 < (W::nat)"
  shows "(n + W - 1) div W = n div W + (if n mod W = 0 then 0 else 1)"
proof -
  define r where "r = n mod W"
  define q where "q = n div W"
  have n: "n = q * W + r" by (simp add: q_def r_def)
  have rW: "r < W" using assms by (simp add: r_def)
  have key: "(a * W + x) div W = a" if "x < W" for a x
    using that by simp
  show ?thesis
  proof (cases "r = 0")
    case True
    define x where "x = W - 1"
    have "n + W - 1 = q * W + x" using n True assms by (simp add: x_def)
    moreover have "x < W" using assms by (simp add: x_def)
    ultimately have "(n + W - 1) div W = q" using key [of x q] by (simp only:)
    then show ?thesis using True by (simp add: q_def r_def)
  next
    case False
    define x where "x = r - 1"
    have "n + W - 1 = (q + 1) * W + x" using n False by (simp add: x_def)
    moreover have "x < W" using rW by (simp add: x_def)
    ultimately have "(n + W - 1) div W = q + 1" using key [of x "q + 1"] by (simp only:)
    then show ?thesis using False by (simp add: q_def r_def)
  qed
qed

section \<open>Facts about the accept handler\<close>

lemma unat_next_worker:
  fixes c l :: "32 word"
  assumes "unat c < unat l"
  shows "unat ((c + 1) mod l) = (unat c + 1) mod unat l"
proof -
  have "unat l < 2 ^ 32" using unsigned_less [of l, where 'a = nat] by simp
  with assms have "unat c + unat (1::32 word) < 2 ^ LENGTH(32)" by simp
  then have "unat (c + 1) = unat c + unat (1::32 word)" by (simp only: unat_add_lem)
  then show ?thesis by (simp add: unat_mod)
qed

lemma add_ok:
  assumes "0 \<le> add_ret"
  shows "\<exists>w1. worker_client_add (Some (a, junk)) add_ret w src trg st pr tr =
           (0, w1, tr @ [Sys_epoll_ctl (event_fd w) EPOLL_CTL_ADD src EPOLLIN (Some a) add_ret]) \<and>
           event_fd w1 = event_fd w"
  using assms by (simp add: worker_client_add_def mempool_alloc_def Let_def)

lemma add_alloc_fails:
  "worker_client_add None add_ret w src trg st pr tr = (- 1, w, tr)"
  by (simp add: worker_client_add_def mempool_alloc_def)

lemma add_epoll_fails:
  assumes "add_ret < 0"
  shows "worker_client_add (Some (a, junk)) add_ret w src trg st pr tr =
           (- 1, w\<lparr>clients := (clients w)(a := None)\<rparr>,
            tr @ [Sys_epoll_ctl (event_fd w) EPOLL_CTL_ADD src EPOLLIN (Some a) add_ret])"
  using assms by (simp add: worker_client_add_def mempool_alloc_def mempool_free_def Let_def)

lemma listener_ok:
  assumes acc: "0 \<le> accept_ret io" and al: "alloc_ret io = Some (a, junk)"
    and ad: "0 \<le> epoll_add_ret io"
    and cur: "unat (workers_curr s) < length (workers s)" and len: "workers_len s \<noteq> 0"
  shows "\<exists>w1. server_event_handle_listener io s tr =
           Inr (s\<lparr>workers := (workers s)[unat (workers_curr s) := w1],
                  workers_curr := (workers_curr s + 1) mod workers_len s\<rparr>,
                tr @ [Sys_accept (listen_fd s) (accept_ret io),
                      Sys_epoll_ctl (event_fd (workers s ! unat (workers_curr s))) EPOLL_CTL_ADD
                        (accept_ret io) EPOLLIN (Some a) (epoll_add_ret io)]) \<and>
           event_fd w1 = event_fd (workers s ! unat (workers_curr s))"
proof -
  from add_ok [OF ad, of a junk "workers s ! unat (workers_curr s)" "accept_ret io" "- 1"
      CLIENT_STATE_HEADER None "tr @ [Sys_accept (listen_fd s) (accept_ret io)]"]
  obtain w1 where w1: "worker_client_add (Some (a, junk)) (epoll_add_ret io)
        (workers s ! unat (workers_curr s)) (accept_ret io) (- 1) CLIENT_STATE_HEADER None
        (tr @ [Sys_accept (listen_fd s) (accept_ret io)]) =
      (0, w1, (tr @ [Sys_accept (listen_fd s) (accept_ret io)]) @
         [Sys_epoll_ctl (event_fd (workers s ! unat (workers_curr s))) EPOLL_CTL_ADD
            (accept_ret io) EPOLLIN (Some a) (epoll_add_ret io)])"
    and e: "event_fd w1 = event_fd (workers s ! unat (workers_curr s))"
    by blast
  have "server_event_handle_listener io s tr =
           Inr (s\<lparr>workers := (workers s)[unat (workers_curr s) := w1],
                  workers_curr := (workers_curr s + 1) mod workers_len s\<rparr>,
                tr @ [Sys_accept (listen_fd s) (accept_ret io),
                      Sys_epoll_ctl (event_fd (workers s ! unat (workers_curr s))) EPOLL_CTL_ADD
                        (accept_ret io) EPOLLIN (Some a) (epoll_add_ret io)])"
    using acc al cur len w1 by (simp add: server_event_handle_listener_def Let_def)
  with e show ?thesis by blast
qed

lemma listener_add_fails:
  assumes acc: "0 \<le> accept_ret io"
    and cur: "unat (workers_curr s) < length (workers s)"
    and fails: "alloc_ret io = None \<or> epoll_add_ret io < 0"
  shows "\<exists>w1 tr0. server_event_handle_listener io s tr =
           Inr (s\<lparr>workers := (workers s)[unat (workers_curr s) := w1]\<rparr>,
                tr0 @ [Sys_close (accept_ret io)]) \<and>
           event_fd w1 = event_fd (workers s ! unat (workers_curr s))"
proof (cases "alloc_ret io")
  case None
  have "server_event_handle_listener io s tr =
           Inr (s\<lparr>workers := (workers s)[unat (workers_curr s) := workers s ! unat (workers_curr s)]\<rparr>,
                (tr @ [Sys_accept (listen_fd s) (accept_ret io)]) @ [Sys_close (accept_ret io)])"
    using None acc cur
    by (simp add: server_event_handle_listener_def Let_def add_alloc_fails)
  then show ?thesis by blast
next
  case (Some aj)
  obtain a junk where aj: "aj = (a, junk)" by (cases aj)
  from Some fails have f: "epoll_add_ret io < 0" by simp
  define w where "w = workers s ! unat (workers_curr s)"
  have "server_event_handle_listener io s tr =
           Inr (s\<lparr>workers := (workers s)[unat (workers_curr s) := w\<lparr>clients := (clients w)(a := None)\<rparr>]\<rparr>,
                (tr @ [Sys_accept (listen_fd s) (accept_ret io),
                   Sys_epoll_ctl (event_fd w) EPOLL_CTL_ADD (accept_ret io) EPOLLIN (Some a)
                     (epoll_add_ret io)]) @ [Sys_close (accept_ret io)])"
    using acc cur Some aj
    by (simp add: server_event_handle_listener_def Let_def add_epoll_fails [OF f] w_def)
  moreover have "event_fd (w\<lparr>clients := (clients w)(a := None)\<rparr>) = event_fd (workers s ! unat (workers_curr s))"
    by (simp add: w_def)
  ultimately show ?thesis by blast
qed

lemma connections_of_append [simp]:
  "connections_of efd (tr @ tr') = connections_of efd tr + connections_of efd tr'"
  by (simp add: connections_of_def)

lemma connections_of_accept_add:
  assumes "0 \<le> r"
  shows "connections_of efd [Sys_accept l fd, Sys_epoll_ctl e EPOLL_CTL_ADD fd ev p r] =
           (if e = efd then 1 else 0)"
  using assms by (simp add: connections_of_def)

lemma event_fd_update:
  assumes "event_fd w1 = event_fd (ws ! c)" and "c < length ws"
  shows "map event_fd (ws[c := w1]) = map event_fd ws"
  using assms by (simp add: map_update list_update_same_conv)

lemma run_count:
  assumes "length (workers s) = W" and "unat (workers_len s) = W"
    and "unat (workers_curr s) < W" and "distinct (map event_fd (workers s))"
    and "\<forall>io\<in>set ios. 0 \<le> accept_ret io \<and> alloc_ret io \<noteq> None \<and> 0 \<le> epoll_add_ret io"
    and "k < W"
  shows "\<exists>s1 tr1. server_accept_run ios s tr = Inr (s1, tr1) \<and>
           connections_of (event_fd (workers s ! k)) tr1 =
             connections_of (event_fd (workers s ! k)) tr +
               (length ios div W +
                 (if (k + W - unat (workers_curr s)) mod W < length ios mod W then 1 else 0))"
  using assms
proof (induction ios arbitrary: s tr)
  case Nil
  then show ?case by simp
next
  case (Cons io ios)
  define c where "c = unat (workers_curr s)"
  have cW: "c < W" using Cons.prems(3) by (simp add: c_def)
  have clen: "c < length (workers s)" using cW Cons.prems(1) by simp
  have klen: "k < length (workers s)" using Cons.prems(1,6) by simp
  have acc: "0 \<le> accept_ret io" and ad: "0 \<le> epoll_add_ret io"
    using Cons.prems(5) by simp_all
  from Cons.prems(5) obtain a junk where al: "alloc_ret io = Some (a, junk)"
    by (cases "alloc_ret io") auto
  have len0: "workers_len s \<noteq> 0"
    using Cons.prems(2) cW by (auto simp add: unat_eq_0)
  from listener_ok [OF acc al ad clen [unfolded c_def] len0, of tr]
  obtain w1 where step: "server_event_handle_listener io s tr =
           Inr (s\<lparr>workers := (workers s)[c := w1],
                  workers_curr := (workers_curr s + 1) mod workers_len s\<rparr>,
                tr @ [Sys_accept (listen_fd s) (accept_ret io),
                      Sys_epoll_ctl (event_fd (workers s ! c)) EPOLL_CTL_ADD
                        (accept_ret io) EPOLLIN (Some a) (epoll_add_ret io)])"
    and e: "event_fd w1 = event_fd (workers s ! c)"
    unfolding c_def by blast
  define s' where "s' = s\<lparr>workers := (workers s)[c := w1],
                  workers_curr := (workers_curr s + 1) mod workers_len s\<rparr>"
  define tr' where "tr' = tr @ [Sys_accept (listen_fd s) (accept_ret io),
                      Sys_epoll_ctl (event_fd (workers s ! c)) EPOLL_CTL_ADD
                        (accept_ret io) EPOLLIN (Some a) (epoll_add_ret io)]"
  have fds: "map event_fd (workers s') = map event_fd (workers s)"
    unfolding s'_def using event_fd_update [OF e clen] by simp
  have fdk: "event_fd (workers s' ! k) = event_fd (workers s ! k)"
  proof -
    have "map event_fd (workers s') ! k = map event_fd (workers s) ! k" by (simp only: fds)
    moreover have "k < length (workers s')" using klen by (simp add: s'_def)
    ultimately show ?thesis using klen by simp
  qed
  have c': "unat (workers_curr s') = (c + 1) mod W"
    using unat_next_worker [of "workers_curr s" "workers_len s"] Cons.prems(2) cW
    by (simp add: s'_def c_def)
  have p1: "length (workers s') = W" using Cons.prems(1) by (simp add: s'_def)
  have p2: "unat (workers_len s') = W" using Cons.prems(2) by (simp add: s'_def)
  have p3: "unat (workers_curr s') < W" using c' cW by simp
  have p4: "distinct (map event_fd (workers s'))" using Cons.prems(4) by (simp only: fds)
  have p5: "\<forall>io\<in>set ios. 0 \<le> accept_ret io \<and> alloc_ret io \<noteq> None \<and> 0 \<le> epoll_add_ret io"
    using Cons.prems(5) by simp
  from Cons.IH [OF p1 p2 p3 p4 p5 Cons.prems(6), of tr']
  obtain s1 tr1 where run: "server_accept_run ios s' tr' = Inr (s1, tr1)"
    and cnt: "connections_of (event_fd (workers s' ! k)) tr1 =
             connections_of (event_fd (workers s' ! k)) tr' +
               (length ios div W +
                 (if (k + W - unat (workers_curr s')) mod W < length ios mod W then 1 else 0))"
    by blast
  have same: "(event_fd (workers s ! c) = event_fd (workers s ! k)) = (c = k)"
  proof -
    have "(map event_fd (workers s) ! c = map event_fd (workers s) ! k) = (c = k)"
      by (rule nth_eq_iff_index_eq) (use Cons.prems(4) clen klen in simp_all)
    then show ?thesis using clen klen by simp
  qed
  have one: "connections_of (event_fd (workers s ! k)) tr' =
               connections_of (event_fd (workers s ! k)) tr + (if c = k then 1 else 0)"
    unfolding tr'_def using connections_of_accept_add [OF ad] same by simp
  have run': "server_accept_run (io # ios) s tr = Inr (s1, tr1)"
    using step run by (simp add: s'_def tr'_def)
  have "connections_of (event_fd (workers s ! k)) tr1 =
          connections_of (event_fd (workers s ! k)) tr +
            ((if c = k then 1 else 0) + (length ios div W +
               (if (k + W - (c + 1) mod W) mod W < length ios mod W then 1 else 0)))"
    using cnt one by (simp add: fdk c')
  also have "\<dots> = connections_of (event_fd (workers s ! k)) tr +
            (Suc (length ios) div W +
               (if (k + W - c) mod W < Suc (length ios) mod W then 1 else 0))"
    by (simp only: rr_step [OF cW Cons.prems(6)])
  finally show ?case using run' by (simp add: c_def)
qed

lemma ex_server_curr: "unat (workers_curr ex_server) < length (workers ex_server)"
  by (simp add: ex_server_def)

section \<open>Facts about server startup\<close>

lemma wait_reads_alive:
  assumes "server_wait_workers alive t j i s tr = Some r"
  shows "j < i \<longrightarrow> (\<exists>u\<ge>t. alive u j)"
proof (rule server_wait_workers.raw_induct
        [where P = "\<lambda>alive t j i s tr r. j < i \<longrightarrow> (\<exists>u\<ge>t. alive u j)", OF _ assms])
  fix f :: "(nat \<Rightarrow> nat \<Rightarrow> bool) \<Rightarrow> nat \<Rightarrow> nat \<Rightarrow> nat \<Rightarrow> server \<Rightarrow> syscall list
              \<Rightarrow> (server \<times> syscall list) option"
  fix alive t j i s tr r
  assume IH: "\<And>alive t j i s tr r. f alive t j i s tr = Some r \<Longrightarrow> j < i \<longrightarrow> (\<exists>u\<ge>t. alive u j)"
    and eq: "(if j < i
              then f alive (Suc t) (if alive t j then Suc j else j) i
                     (s\<lparr>workers := (workers s)[j := (workers s ! j)\<lparr>worker.is_alive := alive t j\<rparr>]\<rparr>)
                     (tr @ [Sys_usleep 10000])
              else Some (s, tr)) = Some r"
  show "j < i \<longrightarrow> (\<exists>u\<ge>t. alive u j)"
  proof
    assume ji: "j < i"
    show "\<exists>u\<ge>t. alive u j"
    proof (cases "alive t j")
      case True
      then show ?thesis by blast
    next
      case False
      with eq ji have "f alive (Suc t) j i
                     (s\<lparr>workers := (workers s)[j := (workers s ! j)\<lparr>worker.is_alive := alive t j\<rparr>]\<rparr>)
                     (tr @ [Sys_usleep 10000]) = Some r" by simp
      from IH [OF this] ji obtain u where "Suc t \<le> u" "alive u j" by blast
      then show ?thesis by (intro exI [of _ u]) simp
    qed
  qed
qed

lemma wait_skip:
  assumes "j < i" and "j < length (workers s)" and "t \<le> x" and "alive x j"
    and "\<forall>u\<in>{t..<x}. \<not> alive u j"
  shows "server_wait_workers alive t j i s tr =
           server_wait_workers alive (Suc x) (Suc j) i
             (s\<lparr>workers := (workers s)[j := (workers s ! j)\<lparr>worker.is_alive := True\<rparr>]\<rparr>)
             (tr @ replicate (Suc x - t) (Sys_usleep 10000))"
  using assms
proof (induction "x - t" arbitrary: t s tr)
  case 0
  then have tx: "t = x" by simp
  show ?case
    using "0.prems"(1,4) unfolding tx
    by (subst server_wait_workers.simps) simp
next
  case (Suc d)
  then have lt: "t < x" by simp
  with Suc.prems(5) have na: "\<not> alive t j" by simp
  define s1 where "s1 = s\<lparr>workers := (workers s)[j := (workers s ! j)\<lparr>worker.is_alive := False\<rparr>]\<rparr>"
  have step: "server_wait_workers alive t j i s tr =
                server_wait_workers alive (Suc t) j i s1 (tr @ [Sys_usleep 10000])"
    using Suc.prems(1) na unfolding s1_def
    by (subst server_wait_workers.simps) simp
  have d: "d = x - Suc t" using Suc.hyps(2) by simp
  have l1: "j < length (workers s1)" using Suc.prems(2) by (simp add: s1_def)
  have le: "Suc t \<le> x" using lt by simp
  have n1: "\<forall>u\<in>{Suc t..<x}. \<not> alive u j" using Suc.prems(5) by simp
  have ws: "s1\<lparr>workers := (workers s1)[j := (workers s1 ! j)\<lparr>worker.is_alive := True\<rparr>]\<rparr> =
            s\<lparr>workers := (workers s)[j := (workers s ! j)\<lparr>worker.is_alive := True\<rparr>]\<rparr>"
    using Suc.prems(2) by (simp add: s1_def)
  have tr: "(tr @ [Sys_usleep 10000]) @ replicate (Suc x - Suc t) (Sys_usleep 10000) =
            tr @ replicate (Suc x - t) (Sys_usleep 10000)"
  proof -
    have "Suc x - t = Suc (Suc x - Suc t)" using lt by simp
    then show ?thesis by simp
  qed
  show ?case
    unfolding step Suc.hyps(1) [OF d Suc.prems(1) l1 le Suc.prems(4) n1] ws tr ..
qed

lemma wait_schedule_end:
  assumes "wait_schedule alive t j ts"
  shows "t \<le> last (t # map Suc ts)"
  using assms
proof (induction ts arbitrary: t j)
  case Nil
  then show ?case by simp
next
  case (Cons x xs)
  then have "t \<le> x" and "wait_schedule alive (Suc x) (Suc j) xs" by simp_all
  with Cons.IH [of "Suc x" "Suc j"] show ?case by simp
qed

lemma wait_follows_schedule:
  assumes "wait_schedule alive t j ts" and "length ts = i - j" and "j \<le> i"
    and "i \<le> length (workers s)"
  shows "server_wait_workers alive t j i s tr =
           Some (s\<lparr>workers := map (\<lambda>k. if j \<le> k \<and> k < i
                                       then (workers s ! k)\<lparr>worker.is_alive := True\<rparr>
                                       else workers s ! k) [0..<length (workers s)]\<rparr>,
                 tr @ replicate (last (t # map Suc ts) - t) (Sys_usleep 10000))"
  using assms
proof (induction ts arbitrary: t j s tr)
  case Nil
  then have ji: "j = i" by simp
  have "map (\<lambda>k. if i \<le> k \<and> k < i
                   then (workers s ! k)\<lparr>worker.is_alive := True\<rparr>
                   else workers s ! k) [0..<length (workers s)] = workers s"
    by (rule nth_equalityI) auto
  then show ?case unfolding ji
    by (subst server_wait_workers.simps) simp
next
  case (Cons x xs)
  from Cons.prems(2) have ji: "j < i" by simp
  with Cons.prems(4) have jl: "j < length (workers s)" by simp
  from Cons.prems(1) have tx: "t \<le> x" and ax: "alive x j"
    and nx: "\<forall>u\<in>{t..<x}. \<not> alive u j" and rest: "wait_schedule alive (Suc x) (Suc j) xs"
    by simp_all
  define s1 where "s1 = s\<lparr>workers := (workers s)[j := (workers s ! j)\<lparr>worker.is_alive := True\<rparr>]\<rparr>"
  have l: "length xs = i - Suc j" using Cons.prems(2) by simp
  have sj: "Suc j \<le> i" using ji by simp
  have il: "i \<le> length (workers s1)" using Cons.prems(4) by (simp add: s1_def)
  have ws: "map (\<lambda>k. if Suc j \<le> k \<and> k < i
                       then (workers s1 ! k)\<lparr>worker.is_alive := True\<rparr>
                       else workers s1 ! k) [0..<length (workers s1)] =
            map (\<lambda>k. if j \<le> k \<and> k < i
                       then (workers s ! k)\<lparr>worker.is_alive := True\<rparr>
                       else workers s ! k) [0..<length (workers s)]"
    using ji jl by (auto simp add: s1_def nth_list_update)
  have e: "Suc x \<le> last (Suc x # map Suc xs)"
    by (rule wait_schedule_end [OF rest])
  have tr: "(tr @ replicate (Suc x - t) (Sys_usleep 10000)) @
              replicate (last (Suc x # map Suc xs) - Suc x) (Sys_usleep 10000) =
            tr @ replicate (last (t # map Suc (x # xs)) - t) (Sys_usleep 10000)"
  proof -
    have "(Suc x - t) + (last (Suc x # map Suc xs) - Suc x) = last (Suc x # map Suc xs) - t"
      using tx e by simp
    then show ?thesis by (simp add: replicate_add [symmetric])
  qed
  have s1w: "s1\<lparr>workers := map (\<lambda>k. if j \<le> k \<and> k < i
                       then (workers s ! k)\<lparr>worker.is_alive := True\<rparr>
                       else workers s ! k) [0..<length (workers s)]\<rparr> =
             s\<lparr>workers := map (\<lambda>k. if j \<le> k \<and> k < i
                       then (workers s ! k)\<lparr>worker.is_alive := True\<rparr>
                       else workers s ! k) [0..<length (workers s)]\<rparr>"
    by (simp add: s1_def)
  show ?case
    unfolding wait_skip [where alive = alive and tr = tr, OF ji jl tx ax nx] s1_def [symmetric]
      Cons.IH [OF rest l sj il] ws tr s1w ..
qed

lemma first_alive:
  fixes t u :: nat
  assumes "t \<le> u" and "P u"
  shows "\<exists>x. t \<le> x \<and> P x \<and> (\<forall>v\<in>{t..<x}. \<not> P v)"
proof -
  define x where "x = (LEAST x. t \<le> x \<and> P x)"
  have "t \<le> x \<and> P x"
    unfolding x_def by (rule LeastI [of "\<lambda>x. t \<le> x \<and> P x" u]) (use assms in simp)
  moreover have "\<not> P v" if "v \<in> {t..<x}" for v
  proof
    assume "P v"
    with that have "x \<le> v" unfolding x_def by (intro Least_le) simp
    with that show False by simp
  qed
  ultimately show ?thesis by blast
qed

lemma wait_returns_schedule:
  assumes "server_wait_workers alive t j i s tr = Some r" and "j \<le> i"
    and "i \<le> length (workers s)"
  shows "\<exists>ts. length ts = i - j \<and> wait_schedule alive t j ts"
  using assms
proof (induction "i - j" arbitrary: t j s tr)
  case 0
  then show ?case by simp
next
  case (Suc d)
  then have ji: "j < i" by simp
  with Suc.prems(3) have jl: "j < length (workers s)" by simp
  from wait_reads_alive [OF Suc.prems(1)] ji obtain u where "t \<le> u" "alive u j" by blast
  from first_alive [of t u "\<lambda>x. alive x j", OF this] obtain x where tx: "t \<le> x" and ax: "alive x j"
    and nx: "\<forall>v\<in>{t..<x}. \<not> alive v j" by blast
  define s1 where "s1 = s\<lparr>workers := (workers s)[j := (workers s ! j)\<lparr>worker.is_alive := True\<rparr>]\<rparr>"
  have r: "server_wait_workers alive (Suc x) (Suc j) i s1
             (tr @ replicate (Suc x - t) (Sys_usleep 10000)) = Some r"
    using Suc.prems(1) unfolding wait_skip [where alive = alive and tr = tr, OF ji jl tx ax nx] s1_def .
  have d: "d = i - Suc j" using Suc.hyps(2) by simp
  have sj: "Suc j \<le> i" using ji by simp
  have il: "i \<le> length (workers s1)" using Suc.prems(3) by (simp add: s1_def)
  from Suc.hyps(1) [OF d r sj il] obtain xs where
    "length xs = i - Suc j" "wait_schedule alive (Suc x) (Suc j) xs" by blast
  then have "length (x # xs) = i - j \<and> wait_schedule alive t j (x # xs)"
    using ji tx ax nx by simp
  then show ?case by blast
qed

lemma fair_schedule:
  assumes "\<forall>k<i. \<forall>t. \<exists>u\<ge>t. alive u k" and "j \<le> i"
  shows "\<exists>ts. length ts = i - j \<and> wait_schedule alive t j ts"
  using assms(2)
proof (induction "i - j" arbitrary: t j)
  case 0
  then show ?case by simp
next
  case (Suc d)
  then have ji: "j < i" by simp
  with assms(1) obtain u where "t \<le> u" "alive u j" by blast
  from first_alive [of t u "\<lambda>x. alive x j", OF this] obtain x where tx: "t \<le> x" and ax: "alive x j"
    and nx: "\<forall>v\<in>{t..<x}. \<not> alive v j" by blast
  have d: "d = i - Suc j" using Suc.hyps(2) by simp
  have sj: "Suc j \<le> i" using ji by simp
  from Suc.hyps(1) [OF d sj, of "Suc x"] obtain xs where
    "length xs = i - Suc j" "wait_schedule alive (Suc x) (Suc j) xs" by blast
  then have "length (x # xs) = i - j \<and> wait_schedule alive t j (x # xs)"
    using ji tx ax nx by simp
  then show ?case by blast
qed

lemma create_loop_ok:
  assumes "\<forall>k<n. 0 \<le> epoll_create1_ret (cio k) \<and> 0 \<le> mempool_init_ret (cio k) \<and>
             thrd_create_ok (cio k)"
  shows "server_create_loop cio i n ws tr =
           (True,
            ws @ map (\<lambda>k. \<lparr>index = of_nat k, is_alive = False,
                           event_fd = epoll_create1_ret (cio k), clients = Map.empty\<rparr>) [i..<n],
            tr @ map (\<lambda>k. Sys_epoll_create1 (epoll_create1_ret (cio k))) [i..<n])"
  using assms
proof (induction cio i n ws tr rule: server_create_loop.induct)
  case (1 cio i n ws tr)
  show ?case
  proof (cases "i < n")
    case False
    then show ?thesis by (simp add: server_create_loop.simps [of cio i n ws tr])
  next
    case True
    define w where "w = \<lparr>index = of_nat i, is_alive = False, event_fd = epoll_create1_ret (cio i),
        clients = Map.empty\<rparr>"
    define tr1 where "tr1 = tr @ [Sys_epoll_create1 (epoll_create1_ret (cio i))]"
    have wc: "worker_create (cio i) (of_nat i) tr = (Some w, tr1)"
      using "1.prems" [rule_format, OF True]
      by (simp add: worker_create_def Let_def w_def tr1_def)
    have u: "[i..<n] = i # [Suc i..<n]" using True by (simp add: upt_conv_Cons)
    from "1.IH" [OF True wc [symmetric] refl "1.prems"]
    show ?thesis using True wc
      by (simp add: server_create_loop.simps [of cio i n ws tr] u w_def tr1_def)
  qed
qed

section \<open>The claims about the server\<close>

text \<open>
  Claim C7: when registering the source descriptor with the multiplexer fails,
  \<open>_worker_client_add\<close> frees the record it has just allocated and returns failure, with
  the pool as it was before the call; the accept handler then closes the accepted socket.
  The slot the pool hands out is one that was not allocated. The call returns \<open>-1\<close> and
  the worker it returns is the worker it was given; the accept handler, called with the
  same answers of the environment, returns the server unchanged, and the last system
  call of its trace closes the accepted descriptor.
\<close>

theorem client_add_registration_failure:
  assumes fresh: "clients w a = None" and fail: "add_ret < 0"
    and io: "alloc_ret io = Some (a, junk)" "epoll_add_ret io = add_ret" "0 \<le> accept_ret io"
    and cur: "unat (workers_curr s) < length (workers s)" "workers s ! unat (workers_curr s) = w"
  shows "worker_client_add (Some (a, junk)) add_ret w src trg st pr tr =
           (- 1, w, tr @ [Sys_epoll_ctl (event_fd w) EPOLL_CTL_ADD src EPOLLIN (Some a) add_ret]) \<and>
         server_event_handle_listener io s tr =
           Inr (s, tr @ [Sys_accept (listen_fd s) (accept_ret io),
                         Sys_epoll_ctl (event_fd w) EPOLL_CTL_ADD (accept_ret io) EPOLLIN (Some a) add_ret,
                         Sys_close (accept_ret io)])"
proof -
  have m: "(clients w)(a := None) = clients w"
    using fresh by (simp add: fun_eq_iff)
  have w: "w\<lparr>clients := (clients w)(a := None)\<rparr> = w"
    unfolding m by simp
  have add: "worker_client_add (Some (a, junk)) add_ret w src' trg' st' pr' tr' =
           (- 1, w, tr' @ [Sys_epoll_ctl (event_fd w) EPOLL_CTL_ADD src' EPOLLIN (Some a) add_ret])"
    for src' trg' st' pr' tr'
    unfolding add_epoll_fails [OF fail] w ..
  have s: "s\<lparr>workers := (workers s)[unat (workers_curr s) := w]\<rparr> = s"
    using cur by (simp add: list_update_same_conv)
  have "server_event_handle_listener io s tr =
           Inr (s, tr @ [Sys_accept (listen_fd s) (accept_ret io),
                         Sys_epoll_ctl (event_fd w) EPOLL_CTL_ADD (accept_ret io) EPOLLIN (Some a) add_ret,
                         Sys_close (accept_ret io)])"
    using io cur fail by (simp add: server_event_handle_listener_def Let_def add s)
  with add show ?thesis by simp
qed

theorem client_add_registration_failure_witness:
  "worker_client_add (Some (1, ex_client CLIENT_STATE_STOP 0 0 None [])) (- 1)
      (workers ex_server ! 0) 20 (- 1) CLIENT_STATE_HEADER None [] =
     (- 1, workers ex_server ! 0, [Sys_epoll_ctl 10 EPOLL_CTL_ADD 20 EPOLLIN (Some 1) (- 1)]) \<and>
   server_event_handle_listener (ex_io 20 1 (- 1)) ex_server [] =
     Inr (ex_server, [Sys_accept 4 20, Sys_epoll_ctl 10 EPOLL_CTL_ADD 20 EPOLLIN (Some 1) (- 1),
                      Sys_close 20])"
  using client_add_registration_failure [where w = "workers ex_server ! 0" and a = 1 and add_ret = "- 1"
      and io = "ex_io 20 1 (- 1)" and junk = "ex_client CLIENT_STATE_STOP 0 0 None []"
      and s = ex_server and src = 20 and trg = "- 1" and st = CLIENT_STATE_HEADER
      and pr = None and tr = "[]"]
  by (simp add: ex_io_def ex_server_def)

text \<open>
  Claim C9: over \<open>N\<close> consecutive accepted connections, with \<open>W\<close> workers and every
  \<open>_worker_client_add\<close> succeeding, each worker receives \<open>N div W\<close> (the floor of
  \<open>N / W\<close>) or \<open>(N + W - 1) div W\<close> (its ceiling) connections. The connections a worker
  receives are counted as the successful registrations on its \<open>event_fd\<close> that the run
  adds to the trace; the workers' multiplexer descriptors are distinct. The run starts
  from any position \<open>workers_curr\<close> of the round robin.
\<close>

theorem round_robin_floor_or_ceil:
  assumes "length (workers s) = W" and "unat (workers_len s) = W"
    and "unat (workers_curr s) < W" and "distinct (map event_fd (workers s))"
    and "\<forall>io\<in>set ios. 0 \<le> accept_ret io \<and> alloc_ret io \<noteq> None \<and> 0 \<le> epoll_add_ret io"
    and "k < W"
  shows "\<exists>s1 tr1. server_accept_run ios s tr = Inr (s1, tr1) \<and>
           (connections_of (event_fd (workers s ! k)) tr1 =
              connections_of (event_fd (workers s ! k)) tr + length ios div W \<or>
            connections_of (event_fd (workers s ! k)) tr1 =
              connections_of (event_fd (workers s ! k)) tr + (length ios + W - 1) div W)"
proof -
  have W: "0 < W" using assms(6) by simp
  from run_count [OF assms, of tr]
  obtain s1 tr1 where run: "server_accept_run ios s tr = Inr (s1, tr1)"
    and cnt: "connections_of (event_fd (workers s ! k)) tr1 =
             connections_of (event_fd (workers s ! k)) tr +
               (length ios div W +
                 (if (k + W - unat (workers_curr s)) mod W < length ios mod W then 1 else 0))"
    by blast
  show ?thesis
  proof (cases "(k + W - unat (workers_curr s)) mod W < length ios mod W")
    case True
    then have "length ios mod W \<noteq> 0" by simp
    then have "(length ios + W - 1) div W = length ios div W + 1"
      using ceil_div [OF W, of "length ios"] by simp
    with cnt True run show ?thesis by simp
  next
    case False
    with cnt run show ?thesis by simp
  qed
qed

theorem round_robin_floor_or_ceil_witness:
  "\<exists>s1 tr1. server_accept_run [ex_io 20 1 0, ex_io 21 1 0, ex_io 22 2 0] ex_server [] = Inr (s1, tr1) \<and>
     (connections_of 10 tr1 = 1 \<or> connections_of 10 tr1 = 2)"
proof -
  have h1: "length (workers ex_server) = 2" and h2: "unat (workers_len ex_server) = 2"
    and h3: "unat (workers_curr ex_server) < 2"
    and h4: "distinct (map event_fd (workers ex_server))"
    by (simp_all add: ex_server_def)
  have h5: "\<forall>io\<in>set [ex_io 20 1 0, ex_io 21 1 0, ex_io 22 2 0].
              0 \<le> accept_ret io \<and> alloc_ret io \<noteq> None \<and> 0 \<le> epoll_add_ret io"
    by (simp add: ex_io_def)
  have h6: "(0::nat) < 2" by simp
  have e: "event_fd (workers ex_server ! 0) = 10" by (simp add: ex_server_def)
  have n: "length [ex_io 20 1 0, ex_io 21 1 0, ex_io 22 2 0] div 2 = 1"
    "(length [ex_io 20 1 0, ex_io 21 1 0, ex_io 22 2 0] + 2 - 1) div 2 = 2"
    by simp_all
  have z: "connections_of 10 [] = 0" by (simp add: connections_of_def)
  from round_robin_floor_or_ceil [OF h1 h2 h3 h4 h5 h6, of "[]"]
  obtain s1 tr1 where
    run: "server_accept_run [ex_io 20 1 0, ex_io 21 1 0, ex_io 22 2 0] ex_server [] = Inr (s1, tr1)"
    and d: "connections_of (event_fd (workers ex_server ! 0)) tr1 =
              connections_of (event_fd (workers ex_server ! 0)) [] +
                length [ex_io 20 1 0, ex_io 21 1 0, ex_io 22 2 0] div 2 \<or>
            connections_of (event_fd (workers ex_server ! 0)) tr1 =
              connections_of (event_fd (workers ex_server ! 0)) [] +
                (length [ex_io 20 1 0, ex_io 21 1 0, ex_io 22 2 0] + 2 - 1) div 2"
    by blast
  from d have "connections_of 10 tr1 = 1 \<or> connections_of 10 tr1 = 2"
    unfolding e n z by (auto simp add: numeral_2_eq_2)
  with run show ?thesis by blast
qed

text \<open>
  Claim C10: when the assignment of an accepted connection to the current worker fails
  (the pool is exhausted or the registration fails), the accepted socket is closed and
  \<open>workers_curr\<close> is left as it was, so the next accepted connection is attempted on the
  same worker. The handler's trace ends with the close of the accepted descriptor;
  \<open>workers_curr\<close>, \<open>workers_len\<close> and every worker's \<open>event_fd\<close> are unchanged; and a next
  call whose \<open>accept\<close>, allocation and registration succeed registers its descriptor
  with the multiplexer of the worker at the old \<open>workers_curr\<close>.
\<close>

theorem failed_assignment_keeps_worker:
  assumes acc: "0 \<le> accept_ret io"
    and cur: "unat (workers_curr s) < length (workers s)"
    and fails: "alloc_ret io = None \<or> epoll_add_ret io < 0"
  shows "\<exists>s1 tr0.
           server_event_handle_listener io s tr = Inr (s1, tr0 @ [Sys_close (accept_ret io)]) \<and>
           workers_curr s1 = workers_curr s \<and>
           workers_len s1 = workers_len s \<and>
           map event_fd (workers s1) = map event_fd (workers s) \<and>
           (\<forall>io2 a2 junk2 tr2.
              0 \<le> accept_ret io2 \<and> alloc_ret io2 = Some (a2, junk2) \<and> 0 \<le> epoll_add_ret io2 \<and>
              workers_len s \<noteq> 0 \<longrightarrow>
              (\<exists>s2. server_event_handle_listener io2 s1 tr2 =
                 Inr (s2, tr2 @ [Sys_accept (listen_fd s) (accept_ret io2),
                        Sys_epoll_ctl (event_fd (workers s ! unat (workers_curr s))) EPOLL_CTL_ADD
                          (accept_ret io2) EPOLLIN (Some a2) (epoll_add_ret io2)])))"
proof -
  from listener_add_fails [OF acc cur fails, of tr]
  obtain w1 tr0 where step: "server_event_handle_listener io s tr =
           Inr (s\<lparr>workers := (workers s)[unat (workers_curr s) := w1]\<rparr>,
                tr0 @ [Sys_close (accept_ret io)])"
    and e: "event_fd w1 = event_fd (workers s ! unat (workers_curr s))"
    by blast
  define s1 where "s1 = s\<lparr>workers := (workers s)[unat (workers_curr s) := w1]\<rparr>"
  have c1: "workers_curr s1 = workers_curr s" and l1: "workers_len s1 = workers_len s"
    and lf: "listen_fd s1 = listen_fd s"
    by (simp_all add: s1_def)
  have f1: "map event_fd (workers s1) = map event_fd (workers s)"
    unfolding s1_def using event_fd_update [OF e cur] by simp
  have cur1: "unat (workers_curr s1) < length (workers s1)"
    using cur by (simp add: s1_def)
  have e1: "event_fd (workers s1 ! unat (workers_curr s1)) =
            event_fd (workers s ! unat (workers_curr s))"
    using cur e by (simp add: s1_def)
  have nxt: "\<exists>s2. server_event_handle_listener io2 s1 tr2 =
                 Inr (s2, tr2 @ [Sys_accept (listen_fd s) (accept_ret io2),
                        Sys_epoll_ctl (event_fd (workers s ! unat (workers_curr s))) EPOLL_CTL_ADD
                          (accept_ret io2) EPOLLIN (Some a2) (epoll_add_ret io2)])"
    if h: "0 \<le> accept_ret io2 \<and> alloc_ret io2 = Some (a2, junk2) \<and> 0 \<le> epoll_add_ret io2 \<and>
              workers_len s \<noteq> 0" for io2 a2 junk2 tr2
  proof -
    from h have h1: "0 \<le> accept_ret io2" and h2: "alloc_ret io2 = Some (a2, junk2)"
      and h3: "0 \<le> epoll_add_ret io2" and h4: "workers_len s1 \<noteq> 0"
      by (simp_all add: l1)
    from listener_ok [OF h1 h2 h3 cur1 h4, of tr2] show ?thesis
      unfolding e1 lf by blast
  qed
  from step c1 l1 f1 nxt show ?thesis
    unfolding s1_def [symmetric] by blast
qed

theorem failed_assignment_keeps_worker_witness:
  "\<exists>s1 tr0.
     server_event_handle_listener (ex_io 20 1 (- 1)) ex_server [] = Inr (s1, tr0 @ [Sys_close 20]) \<and>
     workers_curr s1 = 0 \<and>
     (\<exists>s2. server_event_handle_listener (ex_io 21 1 0) s1 [] =
        Inr (s2, [Sys_accept 4 21, Sys_epoll_ctl 10 EPOLL_CTL_ADD 21 EPOLLIN (Some 1) 0]))"
proof -
  have a: "0 \<le> accept_ret (ex_io 20 1 (- 1))" by (simp add: ex_io_def)
  have f: "alloc_ret (ex_io 20 1 (- 1)) = None \<or> epoll_add_ret (ex_io 20 1 (- 1)) < 0"
    by (simp add: ex_io_def)
  from failed_assignment_keeps_worker [OF a ex_server_curr f, of "[]"]
  obtain s1 tr0 where
    1: "server_event_handle_listener (ex_io 20 1 (- 1)) ex_server [] =
          Inr (s1, tr0 @ [Sys_close (accept_ret (ex_io 20 1 (- 1)))])"
    and 2: "workers_curr s1 = workers_curr ex_server"
    and 3: "\<forall>io2 a2 junk2 tr2.
              0 \<le> accept_ret io2 \<and> alloc_ret io2 = Some (a2, junk2) \<and> 0 \<le> epoll_add_ret io2 \<and>
              workers_len ex_server \<noteq> 0 \<longrightarrow>
              (\<exists>s2. server_event_handle_listener io2 s1 tr2 =
                 Inr (s2, tr2 @ [Sys_accept (listen_fd ex_server) (accept_ret io2),
                        Sys_epoll_ctl (event_fd (workers ex_server ! unat (workers_curr ex_server)))
                          EPOLL_CTL_ADD (accept_ret io2) EPOLLIN (Some a2) (epoll_add_ret io2)]))"
    by blast
  have "0 \<le> accept_ret (ex_io 21 1 0) \<and>
        alloc_ret (ex_io 21 1 0) = Some (1, ex_client CLIENT_STATE_STOP 0 0 None []) \<and>
        0 \<le> epoll_add_ret (ex_io 21 1 0) \<and> workers_len ex_server \<noteq> 0"
    by (simp add: ex_io_def ex_server_def)
  with 3 have "\<exists>s2. server_event_handle_listener (ex_io 21 1 0) s1 [] =
                 Inr (s2, [] @ [Sys_accept (listen_fd ex_server) (accept_ret (ex_io 21 1 0)),
                        Sys_epoll_ctl (event_fd (workers ex_server ! unat (workers_curr ex_server)))
                          EPOLL_CTL_ADD (accept_ret (ex_io 21 1 0)) EPOLLIN (Some 1)
                          (epoll_add_ret (ex_io 21 1 0))])"
    by blast
  then have 4: "\<exists>s2. server_event_handle_listener (ex_io 21 1 0) s1 [] =
        Inr (s2, [Sys_accept 4 21, Sys_epoll_ctl 10 EPOLL_CTL_ADD 21 EPOLLIN (Some 1) 0])"
    by (simp add: ex_io_def ex_server_def)
  from 1 2 4 show ?thesis
    by (auto simp add: ex_io_def ex_server_def)
qed

text \<open>
  Claim C8 says that each worker-creation step waits, with bounded polling, until that
  worker has reported itself alive, so that the wait always terminates. The wait has no
  bound: with one processor, every creation step succeeding and a worker whose flag is
  never read as set, \<open>_server_create_workers\<close> does not return.
\<close>

theorem create_workers_waits_forever:
  "server_create_workers 1 True ex_create_io ex_never_alive ex_server [] = None"
proof -
  have l: "server_create_loop ex_create_io 0 (Suc 0) [] [] =
      (True, [\<lparr>index = 0, is_alive = False, event_fd = 10, clients = Map.empty\<rparr>],
       [Sys_epoll_create1 10])"
    by (simp add: server_create_loop.simps [of _ 0] server_create_loop.simps [of _ "Suc 0"]
        worker_create_def ex_create_io_def Let_def)
  have w: "server_wait_workers ex_never_alive 0 0 (Suc 0) s1 tr1 = None" for s1 tr1
  proof (cases "server_wait_workers ex_never_alive 0 0 (Suc 0) s1 tr1")
    case None
    then show ?thesis .
  next
    case (Some r)
    from wait_reads_alive [OF Some] show ?thesis by (simp add: ex_never_alive_def)
  qed
  show ?thesis
    by (simp add: server_create_workers_def l w)
qed

text \<open>
  Claim C8, amended: server startup creates all workers first and then polls each
  worker's alive flag in index order, sleeping 10 ms after every poll, with no bound on
  the number of polls; the polls of a worker start right after the poll that read the
  flag of the worker before it as set, and end with the first poll that reads its own
  flag as set. Startup returns only when such polls exist for every worker. When they
  do, which is the case if every worker's flag is read as set at some poll from any poll
  on, startup returns 0 right after the poll that reads the last worker's flag as set:
  the trace is the creation of all workers followed by one sleep for each poll, and
  the server holds all workers, each with its flag read as set, \<open>workers_len\<close> the number
  of workers and \<open>workers_curr = 0\<close>. Every creation step succeeds.
\<close>

theorem create_workers_returns_when_alive:
  assumes np: "0 < nprocs" and mem: "malloc_ok"
    and cr: "\<forall>k<nat nprocs. 0 \<le> epoll_create1_ret (cio k) \<and> 0 \<le> mempool_init_ret (cio k) \<and>
               thrd_create_ok (cio k)"
  shows "(\<forall>ts. length ts = nat nprocs \<and> wait_schedule alive 0 0 ts \<longrightarrow>
            server_create_workers nprocs malloc_ok cio alive s tr =
              Some (Inr (0,
                s\<lparr>workers_curr := 0, workers_len := of_nat (nat nprocs),
                  workers := map (\<lambda>k. \<lparr>index = of_nat k, is_alive = True,
                                        event_fd = epoll_create1_ret (cio k),
                                        clients = Map.empty\<rparr>) [0..<nat nprocs]\<rparr>,
                tr @ map (\<lambda>k. Sys_epoll_create1 (epoll_create1_ret (cio k))) [0..<nat nprocs] @
                  replicate (Suc (last ts)) (Sys_usleep 10000)))) \<and>
         (\<forall>r. server_create_workers nprocs malloc_ok cio alive s tr = Some r \<longrightarrow>
            (\<exists>ts. length ts = nat nprocs \<and> wait_schedule alive 0 0 ts)) \<and>
         ((\<forall>j<nat nprocs. \<forall>t. \<exists>u\<ge>t. alive u j) \<longrightarrow>
            (\<exists>ts. length ts = nat nprocs \<and> wait_schedule alive 0 0 ts))"
proof -
  define n where "n = nat nprocs"
  define mk where "mk = (\<lambda>k. \<lparr>index = of_nat k, is_alive = False,
                          event_fd = epoll_create1_ret (cio k), clients = Map.empty\<rparr>)"
  define ws0 where "ws0 = map mk [0..<n]"
  define tr0 where "tr0 = tr @ map (\<lambda>k. Sys_epoll_create1 (epoll_create1_ret (cio k))) [0..<n]"
  define s1 where "s1 = s\<lparr>workers_curr := 0, workers_len := of_nat n, workers := ws0\<rparr>"
  have n0: "0 < n" using np by (simp add: n_def)
  have l: "server_create_loop cio 0 n [] tr = (True, ws0, tr0)"
    using create_loop_ok [OF cr, of 0 "[]" tr] by (simp add: ws0_def tr0_def mk_def n_def)
  have len: "length ws0 = n" by (simp add: ws0_def)
  have run: "server_create_workers nprocs malloc_ok cio alive s tr =
               (case server_wait_workers alive 0 0 n s1 tr0 of
                  None \<Rightarrow> None
                | Some (s2, tr2) \<Rightarrow> Some (Inr (0, s2, tr2)))"
    using np mem l by (simp add: server_create_workers_def n_def [symmetric] len s1_def)
  have w1: "workers s1 = ws0" and il: "n \<le> length (workers s1)"
    by (simp_all add: s1_def len)
  have marked: "map (\<lambda>k. if 0 \<le> k \<and> k < n
                            then (workers s1 ! k)\<lparr>worker.is_alive := True\<rparr>
                            else workers s1 ! k) [0..<length (workers s1)] =
                map (\<lambda>k. \<lparr>index = of_nat k, is_alive = True,
                            event_fd = epoll_create1_ret (cio k), clients = Map.empty\<rparr>) [0..<n]"
    by (simp add: w1 ws0_def mk_def)
  have part1: "server_create_workers nprocs malloc_ok cio alive s tr =
              Some (Inr (0,
                s\<lparr>workers_curr := 0, workers_len := of_nat n,
                  workers := map (\<lambda>k. \<lparr>index = of_nat k, is_alive = True,
                                        event_fd = epoll_create1_ret (cio k),
                                        clients = Map.empty\<rparr>) [0..<n]\<rparr>,
                tr @ map (\<lambda>k. Sys_epoll_create1 (epoll_create1_ret (cio k))) [0..<n] @
                  replicate (Suc (last ts)) (Sys_usleep 10000)))"
    if h: "length ts = n \<and> wait_schedule alive 0 0 ts" for ts
  proof -
    from h have sc: "wait_schedule alive 0 0 ts" and lt: "length ts = n - 0" by simp_all
    from h n0 have ne: "ts \<noteq> []" by auto
    have e: "last (0 # map Suc ts) - 0 = Suc (last ts)"
      using ne by (simp add: last_map)
    have "server_wait_workers alive 0 0 n s1 tr0 =
            Some (s1\<lparr>workers := map (\<lambda>k. \<lparr>index = of_nat k, is_alive = True,
                            event_fd = epoll_create1_ret (cio k), clients = Map.empty\<rparr>) [0..<n]\<rparr>,
                  tr0 @ replicate (Suc (last ts)) (Sys_usleep 10000))"
      using wait_follows_schedule [where alive = alive and tr = tr0, OF sc lt _ il]
      unfolding marked e by simp
    then show ?thesis
      unfolding run by (simp add: s1_def tr0_def)
  qed
  have part2: "\<exists>ts. length ts = n \<and> wait_schedule alive 0 0 ts"
    if h: "server_create_workers nprocs malloc_ok cio alive s tr = Some r" for r
  proof -
    from h obtain r' where "server_wait_workers alive 0 0 n s1 tr0 = Some r'"
      unfolding run by (cases "server_wait_workers alive 0 0 n s1 tr0") auto
    from wait_returns_schedule [OF this _ il] show ?thesis by simp
  qed
  have part3: "\<exists>ts. length ts = n \<and> wait_schedule alive 0 0 ts"
    if h: "\<forall>j<n. \<forall>t. \<exists>u\<ge>t. alive u j"
    using fair_schedule [OF h, of 0 0] by simp
  from part1 part2 part3 show ?thesis
    unfolding n_def by blast
qed

theorem create_workers_returns_when_alive_witness:
  "length [0, 1 :: nat] = nat 2 \<and> wait_schedule ex_always_alive 0 0 [0, 1] \<and>
   server_create_workers 2 True ex_create_io ex_always_alive ex_server [] =
     Some (Inr (0,
       ex_server\<lparr>workers_curr := 0, workers_len := 2,
         workers := [\<lparr>index = 0, is_alive = True, event_fd = 10, clients = Map.empty\<rparr>,
                     \<lparr>index = 1, is_alive = True, event_fd = 11, clients = Map.empty\<rparr>]\<rparr>,
       [Sys_epoll_create1 10, Sys_epoll_create1 11, Sys_usleep 10000, Sys_usleep 10000]))"
proof -
  have h1: "(0::int) < 2" and h2: True
    and h3: "\<forall>k<nat 2. 0 \<le> epoll_create1_ret (ex_create_io k) \<and>
               0 \<le> mempool_init_ret (ex_create_io k) \<and> thrd_create_ok (ex_create_io k)"
    by (simp_all add: ex_create_io_def)
  have sc: "length [0, 1 :: nat] = nat 2 \<and> wait_schedule ex_always_alive 0 0 [0, 1]"
    by (simp add: ex_always_alive_def)
  have u: "[0..<nat 2] = [0, 1]"
    by (simp add: numeral_2_eq_2)
  from create_workers_returns_when_alive [OF h1 h2 h3, of ex_always_alive ex_server "[]"] sc
  have "server_create_workers 2 True ex_create_io ex_always_alive ex_server [] =
              Some (Inr (0,
                ex_server\<lparr>workers_curr := 0, workers_len := of_nat (nat 2),
                  workers := map (\<lambda>k. \<lparr>index = of_nat k, is_alive = True,
                                        event_fd = epoll_create1_ret (ex_create_io k),
                                        clients = Map.empty\<rparr>) [0..<nat 2]\<rparr>,
                [] @ map (\<lambda>k. Sys_epoll_create1 (epoll_create1_ret (ex_create_io k))) [0..<nat 2] @
                  replicate (Suc (last [0, 1])) (Sys_usleep 10000)))"
    by blast
  then have "server_create_workers 2 True ex_create_io ex_always_alive ex_server [] =
     Some (Inr (0,
       ex_server\<lparr>workers_curr := 0, workers_len := 2,
         workers := [\<lparr>index = 0, is_alive = True, event_fd = 10, clients = Map.empty\<rparr>,
                     \<lparr>index = 1, is_alive = True, event_fd = 11, clients = Map.empty\<rparr>]\<rparr>,
       [Sys_epoll_create1 10, Sys_epoll_create1 11, Sys_usleep 10000, Sys_usleep 10000]))"
    unfolding u by (simp add: ex_create_io_def)
  with sc show ?thesis by simp
qed

end
